theory Spec2Isabelle
  imports Complex_Main "HOL-Library.Word" "HOL-Library.Sublist"
begin

section \<open>JavaScript strings\<close>

text \<open>
  A JavaScript string is a sequence of UTF-16 code units: \<^verbatim>\<open>===\<close> compares the
  sequences, \<^verbatim>\<open>.length\<close> counts code units and \<^verbatim>\<open>+\<close> appends them. The literals of
  the source are ASCII; \<open>js\<close> turns an ASCII literal into its code units.
\<close>

type_synonym code_unit = "16 word"
type_synonym jsstring = "code_unit list"

definition cu :: "char \<Rightarrow> code_unit" where
  "cu c = word_of_nat (of_char c)"

definition js :: "string \<Rightarrow> jsstring" where
  "js s = map cu s"

section \<open>Model mapping table (apiModelMapping.ts)\<close>

datatype provider = P_openai | P_anthropic | P_google

record ModelMapping =
  internal :: jsstring
  api :: jsstring
  provider :: provider

definition API_MODEL_MAPPINGS :: "ModelMapping list" where
  "API_MODEL_MAPPINGS =
   [ \<lparr>internal = js ''gpt-4o'', api = js ''gpt-4o'', provider = P_openai\<rparr>,
     \<lparr>internal = js ''gpt-4o-mini'', api = js ''gpt-4o-mini'', provider = P_openai\<rparr>,
     \<lparr>internal = js ''gpt-4-turbo'', api = js ''gpt-4-turbo'', provider = P_openai\<rparr>,
     \<lparr>internal = js ''gpt-3.5-turbo'', api = js ''gpt-3.5-turbo'', provider = P_openai\<rparr>,
     \<lparr>internal = js ''claude-opus-4-1'', api = js ''claude-opus-4-1-20250805'',
      provider = P_anthropic\<rparr>,
     \<lparr>internal = js ''claude-opus-4-0'', api = js ''claude-opus-4-20250514'',
      provider = P_anthropic\<rparr>,
     \<lparr>internal = js ''claude-sonnet-4-0'', api = js ''claude-sonnet-4-20250514'',
      provider = P_anthropic\<rparr>,
     \<lparr>internal = js ''claude-3-7-sonnet-latest'', api = js ''claude-3-7-sonnet-20250219'',
      provider = P_anthropic\<rparr>,
     \<lparr>internal = js ''claude-3-5-haiku-latest'', api = js ''claude-3-5-haiku-20241022'',
      provider = P_anthropic\<rparr>,
     \<lparr>internal = js ''gemini-2.5-pro'', api = js ''gemini-2.5-pro'', provider = P_google\<rparr>,
     \<lparr>internal = js ''gemini-1.5-pro'', api = js ''gemini-1.5-pro'', provider = P_google\<rparr>,
     \<lparr>internal = js ''gemini-1.5-flash'', api = js ''gemini-1.5-flash'', provider = P_google\<rparr>,
     \<lparr>internal = js ''gemini-pro'', api = js ''gemini-pro'', provider = P_google\<rparr>,
     \<lparr>internal = js ''gemini-2.5-flash'', api = js ''gemini-1.5-flash'', provider = P_google\<rparr>,
     \<lparr>internal = js ''gemini-2.5-flash-lite'', api = js ''gemini-1.5-flash'',
      provider = P_google\<rparr> ]"

text \<open>
  \<^verbatim>\<open>Array.prototype.find\<close> returns the first element that satisfies the predicate, or
  \<^verbatim>\<open>undefined\<close>; this is \<^const>\<open>List.find\<close> with \<open>None\<close> for \<^verbatim>\<open>undefined\<close>.
  \<^verbatim>\<open>mapping ? a : b\<close> tests whether an entry was found.
\<close>

definition mapToApiModel :: "jsstring \<Rightarrow> jsstring" where
  "mapToApiModel internalModel =
     (case List.find (\<lambda>m. internal m = internalModel) API_MODEL_MAPPINGS of
        Some mapping \<Rightarrow> api mapping
      | None \<Rightarrow> internalModel)"

definition mapFromApiModel :: "jsstring \<Rightarrow> jsstring" where
  "mapFromApiModel apiModel =
     (case List.find (\<lambda>m. api m = apiModel) API_MODEL_MAPPINGS of
        Some mapping \<Rightarrow> internal mapping
      | None \<Rightarrow> apiModel)"

text \<open>The result \<^verbatim>\<open>string | null\<close> is an option; \<open>None\<close> is \<^verbatim>\<open>null\<close>.\<close>

definition getModelProvider :: "jsstring \<Rightarrow> provider option" where
  "getModelProvider modelName =
     (let mapping = List.find (\<lambda>m. internal m = modelName) API_MODEL_MAPPINGS;
          mapping = (case mapping of
                       None \<Rightarrow> List.find (\<lambda>m. api m = modelName) API_MODEL_MAPPINGS
                     | Some m \<Rightarrow> Some m)
      in case mapping of Some m \<Rightarrow> Some (provider m) | None \<Rightarrow> None)"

definition getModelsForProvider :: "provider \<Rightarrow> ModelMapping list" where
  "getModelsForProvider p = filter (\<lambda>m. provider m = p) API_MODEL_MAPPINGS"

definition isModelSupported :: "jsstring \<Rightarrow> bool" where
  "isModelSupported modelName =
     list_ex (\<lambda>m. internal m = modelName \<or> api m = modelName) API_MODEL_MAPPINGS"

section \<open>JavaScript operations used by the adapters\<close>

text \<open>
  \<^verbatim>\<open>Array.prototype.join(sep)\<close>: the loop of the language definition. \<open>R\<close> is the result so
  far and \<open>k\<close> the index; the separator is appended before every element but the first,
  and an \<^verbatim>\<open>undefined\<close> element (here \<open>None\<close>) contributes the empty string.
\<close>

definition element_string :: "jsstring option \<Rightarrow> jsstring" where
  "element_string element = (case element of None \<Rightarrow> [] | Some s \<Rightarrow> s)"

fun join_loop :: "jsstring \<Rightarrow> jsstring option list \<Rightarrow> nat \<Rightarrow> jsstring \<Rightarrow> jsstring" where
  "join_loop sep [] k R = R"
| "join_loop sep (element # rest) k R =
     (let R' = (if k > 0 then R @ sep else R);
          nxt = element_string element
      in join_loop sep rest (k + 1) (R' @ nxt))"

definition join :: "jsstring option list \<Rightarrow> jsstring \<Rightarrow> jsstring" where
  "join elements sep = join_loop sep elements 0 []"

text \<open>
  \<^verbatim>\<open>x || ''\<close> on a string or \<^verbatim>\<open>undefined\<close>: the right operand is taken when the left
  one is falsy, that is \<^verbatim>\<open>undefined\<close> or the empty string.
\<close>

definition or_string :: "jsstring option \<Rightarrow> jsstring \<Rightarrow> jsstring" where
  "or_string x d = (case x of None \<Rightarrow> d | Some s \<Rightarrow> if s = [] then d else s)"

text \<open>\<^verbatim>\<open>!x\<close> on a string or \<^verbatim>\<open>undefined\<close>: true for \<^verbatim>\<open>undefined\<close> and for the empty string.\<close>

definition falsy :: "jsstring option \<Rightarrow> bool" where
  "falsy x = (case x of None \<Rightarrow> True | Some s \<Rightarrow> s = [])"

text \<open>
  \<^verbatim>\<open>String.prototype.trim\<close> removes the white space and line terminator code units at
  both ends.
\<close>

definition isWhiteSpace :: "code_unit \<Rightarrow> bool" where
  "isWhiteSpace c \<longleftrightarrow>
     c \<in> set [0x0009, 0x000A, 0x000B, 0x000C, 0x000D, 0x0020, 0x00A0, 0x1680,
              0x2028, 0x2029, 0x202F, 0x205F, 0x3000, 0xFEFF] \<or>
     (0x2000 \<le> c \<and> c \<le> 0x200A)"

definition trim :: "jsstring \<Rightarrow> jsstring" where
  "trim s = rev (dropWhile isWhiteSpace (rev (dropWhile isWhiteSpace s)))"

text \<open>
  \<^verbatim>\<open>Math.ceil(n / 4)\<close> for a string length \<open>n\<close>: dividing by four is exact in double
  precision, so the result is the ceiling of the quotient.
\<close>

definition ceil_quarter :: "nat \<Rightarrow> nat" where
  "ceil_quarter n = nat \<lceil>real n / 4\<rceil>"

text \<open>
  A thrown \<^verbatim>\<open>Error\<close> with its message. Every public method of an adapter wraps its body
  in \<^verbatim>\<open>try { ... } catch (error) { throw new Error(`<tag>${error.message}`) }\<close>.
\<close>

datatype js_error = Error (message: jsstring)

definition rethrow :: "jsstring \<Rightarrow> js_error + 'a \<Rightarrow> js_error + 'a" where
  "rethrow tag body =
     (case body of Inl e \<Rightarrow> Inl (Error (tag @ message e)) | Inr v \<Rightarrow> Inr v)"

text \<open>
  The calls an adapter makes to its provider's transport, in order. A method returns the
  calls it made together with its outcome.
\<close>

datatype transport_call =
    Fetch jsstring
  | OpenAI_chat_completions_create
  | OpenAI_embeddings_create
  | Anthropic_messages_create

type_synonym 'a traced = "transport_call list \<times> (js_error + 'a)"

section \<open>Request contents (the \<^verbatim>\<open>ContentListUnion\<close> of the request types)\<close>

text \<open>
  A request's \<^verbatim>\<open>contents\<close> is a string, an array whose entries are strings or objects
  (a \<^verbatim>\<open>Content\<close> with optional \<^verbatim>\<open>role\<close> and \<^verbatim>\<open>parts\<close>; a bare \<^verbatim>\<open>Part\<close> is an object without
  \<^verbatim>\<open>parts\<close>), or a single object. A part's \<^verbatim>\<open>text\<close> is optional.
\<close>

datatype Part = Part (part_text: "jsstring option")

datatype ContentEntry =
    StringEntry jsstring
  | ObjectEntry (entry_role: "jsstring option") (entry_parts: "Part list option")

datatype Contents =
    StringContents jsstring
  | ArrayContents "ContentEntry list"
  | OtherContents

text \<open>
  The callback of \<^verbatim>\<open>contents.map\<close> in \<^verbatim>\<open>convertContentsToMessage\<close> and in the three
  \<^verbatim>\<open>extractTextFromContents\<close>:
  \<^verbatim>\<open>content.parts?.map((part) => part.text).join(' ') || ''\<close>.
\<close>

definition parts_text :: "Part list option \<Rightarrow> jsstring" where
  "parts_text parts =
     or_string (map_option (\<lambda>ps. join (map part_text ps) (js '' '')) parts) (js [])"

definition content_text :: "ContentEntry \<Rightarrow> jsstring" where
  "content_text content =
     (case content of
        StringEntry s \<Rightarrow> s
      | ObjectEntry r parts \<Rightarrow> parts_text parts)"

subsection \<open>ApiContentGenerator\<close>

fun Api_convertContentsToMessage :: "Contents \<Rightarrow> jsstring" where
  "Api_convertContentsToMessage (StringContents contents) = contents"
| "Api_convertContentsToMessage (ArrayContents contents) =
     join (map (\<lambda>content. Some (content_text content)) contents) (js '' '')"
| "Api_convertContentsToMessage OtherContents = js []"

definition Api_extractTextFromContents :: "Contents \<Rightarrow> jsstring" where
  "Api_extractTextFromContents contents = Api_convertContentsToMessage contents"

record CountTokensResponse =
  totalTokens :: nat

record ContentEmbedding =
  embedding_values :: "real list"

record EmbedContentResponse =
  embeddings :: "ContentEmbedding list"

definition Api_countTokens :: "Contents \<Rightarrow> CountTokensResponse traced" where
  "Api_countTokens contents =
     ([], rethrow (js ''API token counting error: '')
        (let message = Api_convertContentsToMessage contents;
             estimatedTokens = ceil_quarter (length message)
         in Inr \<lparr>totalTokens = estimatedTokens\<rparr>))"

definition Api_embedContent :: "Contents \<Rightarrow> EmbedContentResponse traced" where
  "Api_embedContent contents =
     ([], rethrow (js ''API embedding error: '')
        (let text = Api_extractTextFromContents contents
         in if trim text = []
            then Inl (Error (js ''No content provided for embedding''))
            else Inr \<lparr>embeddings = [\<lparr>embedding_values = []\<rparr>]\<rparr>))"

subsection \<open>OpenAIContentGenerator and AnthropicContentGenerator: messages\<close>

datatype role = R_user | R_assistant | R_system

record Message =
  msg_role :: role
  msg_content :: jsstring

text \<open>The callback of \<^verbatim>\<open>contents.map\<close> in the two message conversions.\<close>

definition content_message :: "ContentEntry \<Rightarrow> Message" where
  "content_message content =
     (case content of
        StringEntry s \<Rightarrow> \<lparr>msg_role = R_user, msg_content = s\<rparr>
      | ObjectEntry r parts \<Rightarrow>
          \<lparr>msg_role = (if r = Some (js ''user'') then R_user else R_assistant),
           msg_content = parts_text parts\<rparr>)"

fun OpenAI_convertGeminiMessagesToOpenAI :: "Contents \<Rightarrow> Message list" where
  "OpenAI_convertGeminiMessagesToOpenAI (StringContents contents) =
     [\<lparr>msg_role = R_user, msg_content = contents\<rparr>]"
| "OpenAI_convertGeminiMessagesToOpenAI (ArrayContents contents) = map content_message contents"
| "OpenAI_convertGeminiMessagesToOpenAI OtherContents = []"

fun OpenAI_extractTextFromContents :: "Contents \<Rightarrow> jsstring" where
  "OpenAI_extractTextFromContents (StringContents contents) = contents"
| "OpenAI_extractTextFromContents (ArrayContents contents) =
     join (map (\<lambda>content. Some (content_text content)) contents) (js '' '')"
| "OpenAI_extractTextFromContents OtherContents = js []"

definition OpenAI_countTokens :: "Contents \<Rightarrow> CountTokensResponse traced" where
  "OpenAI_countTokens contents =
     ([], rethrow (js ''OpenAI token counting error: '')
        (let messages = OpenAI_convertGeminiMessagesToOpenAI contents;
             text = join (map (\<lambda>msg. Some (msg_content msg)) messages) (js '' '');
             estimatedTokens = ceil_quarter (length text)
         in Inr \<lparr>totalTokens = estimatedTokens\<rparr>))"

text \<open>
  The OpenAI adapter has an embeddings endpoint: \<open>create\<close> is
  \<^verbatim>\<open>openai.embeddings.create\<close>, called with the default embedding model and the flattened
  text; \<open>data\<close> holds the \<^verbatim>\<open>embedding\<close> field of each entry of the reply's \<^verbatim>\<open>data\<close>.
\<close>

record OpenAI_embeddings_params =
  embedding_model :: jsstring
  input :: jsstring

record OpenAI_embeddings_response =
  data :: "real list option list"

definition OpenAI_embedContent ::
  "(OpenAI_embeddings_params \<Rightarrow> js_error + OpenAI_embeddings_response) \<Rightarrow> Contents
     \<Rightarrow> EmbedContentResponse traced" where
  "OpenAI_embedContent create contents =
     (let text = OpenAI_extractTextFromContents contents
      in ([OpenAI_embeddings_create],
          rethrow (js ''OpenAI embedding error: '')
            (case create \<lparr>embedding_model = js ''text-embedding-3-small'', input = text\<rparr> of
               Inl e \<Rightarrow> Inl e
             | Inr response \<Rightarrow>
                 Inr \<lparr>embeddings =
                   [\<lparr>embedding_values =
                       (case data response of
                          [] \<Rightarrow> []
                        | None # _ \<Rightarrow> []
                        | Some v # _ \<Rightarrow> v)\<rparr>]\<rparr>)))"

fun Anthropic_convertGeminiMessagesToAnthropic :: "Contents \<Rightarrow> Message list" where
  "Anthropic_convertGeminiMessagesToAnthropic (StringContents contents) =
     [\<lparr>msg_role = R_user, msg_content = contents\<rparr>]"
| "Anthropic_convertGeminiMessagesToAnthropic (ArrayContents contents) =
     map content_message contents"
| "Anthropic_convertGeminiMessagesToAnthropic OtherContents = []"

fun Anthropic_extractTextFromContents :: "Contents \<Rightarrow> jsstring" where
  "Anthropic_extractTextFromContents (StringContents contents) = contents"
| "Anthropic_extractTextFromContents (ArrayContents contents) =
     join (map (\<lambda>content. Some (content_text content)) contents) (js '' '')"
| "Anthropic_extractTextFromContents OtherContents = js []"

definition Anthropic_countTokens :: "Contents \<Rightarrow> CountTokensResponse traced" where
  "Anthropic_countTokens contents =
     ([], rethrow (js ''Anthropic token counting error: '')
        (let messages = Anthropic_convertGeminiMessagesToAnthropic contents;
             text = join (map (\<lambda>msg. Some (msg_content msg)) messages) (js '' '');
             estimatedTokens = ceil_quarter (length text)
         in Inr \<lparr>totalTokens = estimatedTokens\<rparr>))"

definition Anthropic_embedContent :: "Contents \<Rightarrow> EmbedContentResponse traced" where
  "Anthropic_embedContent contents =
     ([], rethrow (js ''Anthropic embedding error: '')
        (let text = Anthropic_extractTextFromContents contents
         in if trim text = []
            then Inl (Error (js ''No content provided for embedding''))
            else Inr \<lparr>embeddings = [\<lparr>embedding_values = []\<rparr>]\<rparr>))"

subsection \<open>Finish reasons\<close>

text \<open>
  The members of the response library's \<^verbatim>\<open>FinishReason\<close> enum that the adapters produce;
  they are the four canonical reasons of the specification.
\<close>

datatype FinishReason = STOP | MAX_TOKENS | SAFETY | FINISH_REASON_UNSPECIFIED

text \<open>
  The native reason is read through optional chaining and may be \<^verbatim>\<open>undefined\<close>
  (\<open>None\<close>); the \<^verbatim>\<open>switch\<close> compares with \<^verbatim>\<open>===\<close>, so \<^verbatim>\<open>undefined\<close> takes the default
  branch.
\<close>

definition OpenAI_convertFinishReason :: "jsstring option \<Rightarrow> FinishReason" where
  "OpenAI_convertFinishReason reason =
     (if reason = Some (js ''stop'') then STOP
      else if reason = Some (js ''length'') then MAX_TOKENS
      else if reason = Some (js ''content_filter'') then SAFETY
      else FINISH_REASON_UNSPECIFIED)"

definition Anthropic_convertFinishReason :: "jsstring option \<Rightarrow> FinishReason" where
  "Anthropic_convertFinishReason reason =
     (if reason = Some (js ''end_turn'') then STOP
      else if reason = Some (js ''max_tokens'') then MAX_TOKENS
      else if reason = Some (js ''stop_sequence'') then STOP
      else FINISH_REASON_UNSPECIFIED)"

section \<open>The specification's content flattening\<close>

text \<open>
  The specification's \<open>flattenToText\<close>, in its own words: a raw string is returned; a
  sequence concatenates each entry's text, its parts joined with a single space, and
  joins the entries with a single space; any other shape yields the empty string.
\<close>

fun join_space :: "jsstring list \<Rightarrow> jsstring" where
  "join_space [] = []"
| "join_space [x] = x"
| "join_space (x # y # ys) = x @ [0x20] @ join_space (y # ys)"

fun entry_text_spec :: "ContentEntry \<Rightarrow> jsstring" where
  "entry_text_spec (StringEntry s) = s"
| "entry_text_spec (ObjectEntry r None) = []"
| "entry_text_spec (ObjectEntry r (Some ps)) =
     join_space (map (\<lambda>p. case part_text p of None \<Rightarrow> [] | Some t \<Rightarrow> t) ps)"

fun flattenToText_spec :: "Contents \<Rightarrow> jsstring" where
  "flattenToText_spec (StringContents s) = s"
| "flattenToText_spec (ArrayContents es) = join_space (map entry_text_spec es)"
| "flattenToText_spec OtherContents = []"

section \<open>Non-streaming generation\<close>

subsection \<open>JavaScript numbers\<close>

text \<open>
  A number is a double. The numbers of this model are the token counters of the
  providers' replies: in the reply's JSON text a counter is an integer numeral (or is
  absent), and the adapter sees the double nearest to it. \<open>Num n\<close> is the double whose
  value is the integer \<open>n\<close>.
\<close>

datatype js_number = NaN | Num int | PosInfinity | NegInfinity

text \<open>
  Rounding a natural number to the nearest double, ties to the even significand. Below
  \<open>2 ^ 53\<close> every integer is a double; an integer of \<open>e + 1\<close> bits beyond that is rounded
  to a multiple of \<open>2 ^ (e - 52)\<close>. A result of \<open>2 ^ 1024\<close> or more is an infinity.
\<close>

fun bit_length :: "nat \<Rightarrow> nat" where
  "bit_length n = (if n = 0 then 0 else Suc (bit_length (n div 2)))"

declare bit_length.simps [simp del]

definition round_to_double :: "nat \<Rightarrow> nat" where
  "round_to_double n =
     (if n < 2 ^ 53 then n
      else (let e = bit_length n - 1;
                q = 2 ^ (e - 52);
                r = n mod q;
                base = n - r
            in if 2 * r < q then base
               else if q < 2 * r then base + q
               else if even (base div q) then base
               else base + q))"

definition double_of_int :: "int \<Rightarrow> js_number" where
  "double_of_int n =
     (let m = round_to_double (nat \<bar>n\<bar>)
      in if 2 ^ 1024 \<le> m then (if n < 0 then NegInfinity else PosInfinity)
         else Num (if n < 0 then - int m else int m))"

text \<open>Reading a counter of a reply: \<^verbatim>\<open>undefined\<close> when it is absent.\<close>

definition read_number :: "int option \<Rightarrow> js_number option" where
  "read_number x = map_option double_of_int x"

text \<open>
  \<^verbatim>\<open>a + b\<close> on doubles with integer values: the exact sum, rounded. On operands that may
  be \<^verbatim>\<open>undefined\<close>, a sum with an \<^verbatim>\<open>undefined\<close> operand is \<^verbatim>\<open>NaN\<close>.
\<close>

fun add_numbers :: "js_number \<Rightarrow> js_number \<Rightarrow> js_number" where
  "add_numbers (Num x) (Num y) = double_of_int (x + y)"
| "add_numbers NaN b = NaN"
| "add_numbers a NaN = NaN"
| "add_numbers PosInfinity NegInfinity = NaN"
| "add_numbers NegInfinity PosInfinity = NaN"
| "add_numbers PosInfinity b = PosInfinity"
| "add_numbers a PosInfinity = PosInfinity"
| "add_numbers NegInfinity b = NegInfinity"
| "add_numbers a NegInfinity = NegInfinity"

definition js_add :: "js_number option \<Rightarrow> js_number option \<Rightarrow> js_number" where
  "js_add a b = (case (a, b) of (Some x, Some y) \<Rightarrow> add_numbers x y | _ \<Rightarrow> NaN)"

text \<open>
  Truthiness of a number (zero and \<^verbatim>\<open>NaN\<close> are falsy) and \<^verbatim>\<open>x || 0\<close> on a number that
  may be \<^verbatim>\<open>undefined\<close>.
\<close>

definition truthy_number :: "js_number \<Rightarrow> bool" where
  "truthy_number x = (case x of NaN \<Rightarrow> False | Num n \<Rightarrow> n \<noteq> 0 | _ \<Rightarrow> True)"

definition or_zero :: "js_number option \<Rightarrow> js_number" where
  "or_zero x = (case x of None \<Rightarrow> Num 0 | Some v \<Rightarrow> if truthy_number v then v else Num 0)"

text \<open>
  The canonical response (\<^verbatim>\<open>GenerateContentResponse\<close>): candidates and an optional
  \<^verbatim>\<open>usageMetadata\<close>, whose token counters are numbers.
\<close>

record ResponseContent =
  parts :: "Part list"
  role :: jsstring

record Candidate =
  content :: ResponseContent
  finishReason :: FinishReason

record UsageMetadata =
  promptTokenCount :: js_number
  candidatesTokenCount :: js_number
  totalTokenCount :: js_number

record GenerateContentResponse =
  candidates :: "Candidate list"
  usageMetadata :: "UsageMetadata option"

text \<open>A new \<^verbatim>\<open>GenerateContentResponse\<close> has no field set.\<close>

definition GenerateContentResponseClass :: GenerateContentResponse where
  "GenerateContentResponseClass = \<lparr>candidates = [], usageMetadata = None\<rparr>"

record GenerationConfig =
  temperature :: "real option"
  maxOutputTokens :: "int option"
  topP :: "real option"
  stopSequences :: "jsstring list option"

record GenerateContentParameters =
  contents :: Contents
  config :: "GenerationConfig option"

text \<open>
  \<^verbatim>\<open>x || d\<close> on a number of the request's configuration, given by the caller as an
  integer or left \<^verbatim>\<open>undefined\<close> (zero is falsy).
\<close>

definition or_number :: "int option \<Rightarrow> int \<Rightarrow> int" where
  "or_number x d = (case x of None \<Rightarrow> d | Some n \<Rightarrow> if n = 0 then d else n)"

text \<open>\<^verbatim>\<open>xs?.[0]\<close> on an array that may be \<^verbatim>\<open>undefined\<close>.\<close>

definition first_of :: "'a list option \<Rightarrow> 'a option" where
  "first_of xs = (case xs of None \<Rightarrow> None | Some [] \<Rightarrow> None | Some (x # _) \<Rightarrow> Some x)"

subsection \<open>OpenAIContentGenerator\<close>

text \<open>
  The provider's response is untyped in the source; these are the fields the adapter
  reads, each optional as the optional chaining allows.
\<close>

record OpenAI_usage =
  prompt_tokens :: "int option"
  completion_tokens :: "int option"
  total_tokens :: "int option"

record OpenAI_choice =
  message_content :: "jsstring option"
  finish_reason :: "jsstring option"

record OpenAI_response =
  choices :: "OpenAI_choice list option"
  usage :: "OpenAI_usage option"

record OpenAI_params =
  model :: jsstring
  messages :: "Message list"
  temperature_p :: "real option"
  max_tokens :: "int option"
  top_p :: "real option"
  stop :: "jsstring list option"

definition OpenAI_convertOpenAIResponseToGemini :: "OpenAI_response \<Rightarrow> GenerateContentResponse"
  where
  "OpenAI_convertOpenAIResponseToGemini response =
     (let content = or_string (Option.bind (first_of (choices response)) message_content) (js []);
          geminiResponse = GenerateContentResponseClass;
          geminiResponse = geminiResponse\<lparr>candidates :=
            [\<lparr>content = \<lparr>parts = [Part (Some content)], role = js ''model''\<rparr>,
              finishReason = OpenAI_convertFinishReason
                (Option.bind (first_of (choices response)) finish_reason)\<rparr>]\<rparr>;
          geminiResponse = geminiResponse\<lparr>usageMetadata := Some
            \<lparr>promptTokenCount =
               or_zero (read_number (Option.bind (usage response) prompt_tokens)),
             candidatesTokenCount =
               or_zero (read_number (Option.bind (usage response) completion_tokens)),
             totalTokenCount =
               or_zero (read_number (Option.bind (usage response) total_tokens))\<rparr>\<rparr>
      in geminiResponse)"

text \<open>
  \<open>create\<close> is the provider call \<^verbatim>\<open>openai.chat.completions.create\<close>: it returns the
  native response or throws.
\<close>

definition OpenAI_generateContent ::
  "(OpenAI_params \<Rightarrow> js_error + OpenAI_response) \<Rightarrow> jsstring \<Rightarrow> GenerateContentParameters
     \<Rightarrow> GenerateContentResponse traced" where
  "OpenAI_generateContent create this_model request =
     (let messages = OpenAI_convertGeminiMessagesToOpenAI (contents request)
      in ([OpenAI_chat_completions_create],
          rethrow (js ''OpenAI API error: '')
            (case create \<lparr>model = this_model, messages = messages,
                    temperature_p = Option.bind (config request) temperature,
                    max_tokens = Option.bind (config request) maxOutputTokens,
                    top_p = Option.bind (config request) topP,
                    stop = Option.bind (config request) stopSequences\<rparr> of
               Inl e \<Rightarrow> Inl e
             | Inr response \<Rightarrow> Inr (OpenAI_convertOpenAIResponseToGemini response))))"

subsection \<open>AnthropicContentGenerator\<close>

record Anthropic_usage =
  input_tokens :: "int option"
  output_tokens :: "int option"

record Anthropic_block =
  block_text :: "jsstring option"

record Anthropic_response =
  content_blocks :: "Anthropic_block list option"
  stop_reason :: "jsstring option"
  anthropic_usage :: "Anthropic_usage option"

record Anthropic_params =
  a_model :: jsstring
  a_messages :: "Message list"
  a_temperature :: "real option"
  a_max_tokens :: int
  a_top_p :: "real option"
  a_stop_sequences :: "jsstring list option"

definition Anthropic_convertAnthropicResponseToGemini ::
  "Anthropic_response \<Rightarrow> GenerateContentResponse" where
  "Anthropic_convertAnthropicResponseToGemini response =
     (let content = or_string (Option.bind (first_of (content_blocks response)) block_text) (js []);
          geminiResponse = GenerateContentResponseClass;
          geminiResponse = geminiResponse\<lparr>candidates :=
            [\<lparr>content = \<lparr>parts = [Part (Some content)], role = js ''model''\<rparr>,
              finishReason = Anthropic_convertFinishReason (stop_reason response)\<rparr>]\<rparr>;
          geminiResponse = geminiResponse\<lparr>usageMetadata := Some
            \<lparr>promptTokenCount =
               or_zero (read_number (Option.bind (anthropic_usage response) input_tokens)),
             candidatesTokenCount =
               or_zero (read_number (Option.bind (anthropic_usage response) output_tokens)),
             totalTokenCount = or_zero (Some
               (js_add (read_number (Option.bind (anthropic_usage response) input_tokens))
                       (read_number (Option.bind (anthropic_usage response) output_tokens))))\<rparr>\<rparr>
      in geminiResponse)"

definition Anthropic_generateContent ::
  "(Anthropic_params \<Rightarrow> js_error + Anthropic_response) \<Rightarrow> jsstring \<Rightarrow> GenerateContentParameters
     \<Rightarrow> GenerateContentResponse traced" where
  "Anthropic_generateContent create this_model request =
     (let messages = Anthropic_convertGeminiMessagesToAnthropic (contents request)
      in ([Anthropic_messages_create],
          rethrow (js ''Anthropic API error: '')
            (case create \<lparr>a_model = this_model, a_messages = messages,
                    a_temperature = Option.bind (config request) temperature,
                    a_max_tokens = or_number (Option.bind (config request) maxOutputTokens) 4096,
                    a_top_p = Option.bind (config request) topP,
                    a_stop_sequences = Option.bind (config request) stopSequences\<rparr> of
               Inl e \<Rightarrow> Inl e
             | Inr response \<Rightarrow> Inr (Anthropic_convertAnthropicResponseToGemini response))))"

subsection \<open>ApiContentGenerator\<close>

record ChatApiRequest =
  message_r :: jsstring
  model_name :: jsstring
  stream :: "bool option"

record ChatApiMetadata =
  response_time_ms :: "int option"
  tokens_used :: "int option"

record ChatApiResponse =
  message_a :: jsstring
  model_name_a :: jsstring
  mode :: jsstring
  metadata :: "ChatApiMetadata option"

text \<open>
  What \<^verbatim>\<open>fetch\<close> is called with and what it resolves to: the fields of the HTTP
  response the adapter reads. \<open>body\<close> holds the text blocks the body's reader delivers
  until it is done, decoded; \<open>None\<close> is a response without a body.
\<close>

record FetchRequest =
  url :: jsstring
  authorization :: jsstring
  body_r :: ChatApiRequest

record HttpResponse =
  ok :: bool
  status :: nat
  statusText :: jsstring
  response_text :: "js_error + jsstring"
  response_json :: "js_error + ChatApiResponse"
  body :: "jsstring list option"

record ApiContentGenerator_fields =
  apiEndpoint :: jsstring
  authToken :: jsstring
  api_model :: jsstring

text \<open>A status code in a template string: its decimal digits.\<close>

fun Number_toString :: "nat \<Rightarrow> jsstring" where
  "Number_toString n =
     (if n < 10 then [0x30 + word_of_nat n]
      else Number_toString (n div 10) @ [0x30 + word_of_nat (n mod 10)])"

definition Api_makeApiRequest ::
  "(FetchRequest \<Rightarrow> js_error + HttpResponse) \<Rightarrow> ApiContentGenerator_fields \<Rightarrow> jsstring
     \<Rightarrow> ChatApiRequest \<Rightarrow> ChatApiResponse traced" where
  "Api_makeApiRequest fetch this endpoint data_r =
     ([Fetch (apiEndpoint this @ endpoint)],
      (case fetch \<lparr>url = apiEndpoint this @ endpoint,
                   authorization = js ''Bearer '' @ authToken this,
                   body_r = data_r\<rparr> of
         Inl e \<Rightarrow> Inl e
       | Inr response \<Rightarrow>
           if \<not> ok response then
             (case response_text response of
                Inl e \<Rightarrow> Inl e
              | Inr errorText \<Rightarrow>
                  Inl (Error (js ''API request failed: '' @ Number_toString (status response)
                        @ js '' '' @ statusText response @ js '' - '' @ errorText)))
           else response_json response))"

definition Api_convertApiResponseToGemini :: "ChatApiResponse \<Rightarrow> GenerateContentResponse" where
  "Api_convertApiResponseToGemini response =
     (let geminiResponse = GenerateContentResponseClass;
          geminiResponse = geminiResponse\<lparr>candidates :=
            [\<lparr>content = \<lparr>parts = [Part (Some (message_a response))], role = js ''model''\<rparr>,
              finishReason = STOP\<rparr>]\<rparr>
      in (case read_number (Option.bind (metadata response) tokens_used) of
            None \<Rightarrow> geminiResponse
          | Some t \<Rightarrow>
              if truthy_number t
              then geminiResponse\<lparr>usageMetadata := Some
                     \<lparr>promptTokenCount = Num 0, candidatesTokenCount = t,
                      totalTokenCount = t\<rparr>\<rparr>
              else geminiResponse))"

definition Api_generateContent ::
  "(FetchRequest \<Rightarrow> js_error + HttpResponse) \<Rightarrow> ApiContentGenerator_fields
     \<Rightarrow> GenerateContentParameters \<Rightarrow> GenerateContentResponse traced" where
  "Api_generateContent fetch this request =
     (let message = Api_convertContentsToMessage (contents request);
          apiRequest = \<lparr>message_r = message, model_name = mapToApiModel (api_model this),
                        stream = Some False\<rparr>;
          (calls, response) = Api_makeApiRequest fetch this (js ''/api/chat/send'') apiRequest
      in (calls,
          rethrow (js ''API content generation error: '')
            (case response of
               Inl e \<Rightarrow> Inl e
             | Inr r \<Rightarrow> Inr (Api_convertApiResponseToGemini r))))"

section \<open>Example transports\<close>

text \<open>
  Concrete providers for the examples: an OpenAI reply that reports only its prompt
  tokens, Anthropic replies that report both counters and only the input counter, and
  gateway replies with and without \<^verbatim>\<open>metadata\<close>.
\<close>

definition example_request :: GenerateContentParameters where
  "example_request = \<lparr>contents = StringContents (js ''hello''), config = None\<rparr>"

definition example_openai_response :: OpenAI_response where
  "example_openai_response =
     \<lparr>choices = Some [\<lparr>message_content = Some (js ''hi''), finish_reason = Some (js ''stop'')\<rparr>],
      usage = Some \<lparr>prompt_tokens = Some 7, completion_tokens = None, total_tokens = None\<rparr>\<rparr>"

definition example_openai_create :: "OpenAI_params \<Rightarrow> js_error + OpenAI_response" where
  "example_openai_create p = Inr example_openai_response"

definition example_anthropic_response :: Anthropic_response where
  "example_anthropic_response =
     \<lparr>content_blocks = Some [\<lparr>block_text = Some (js ''hi'')\<rparr>],
      stop_reason = Some (js ''end_turn''),
      anthropic_usage = Some \<lparr>input_tokens = Some 3, output_tokens = Some 4\<rparr>\<rparr>"

definition example_anthropic_partial_response :: Anthropic_response where
  "example_anthropic_partial_response =
     \<lparr>content_blocks = Some [\<lparr>block_text = Some (js ''hi'')\<rparr>],
      stop_reason = Some (js ''end_turn''),
      anthropic_usage = Some \<lparr>input_tokens = Some 10, output_tokens = None\<rparr>\<rparr>"

definition example_anthropic_create :: "Anthropic_params \<Rightarrow> js_error + Anthropic_response" where
  "example_anthropic_create p = Inr example_anthropic_response"

definition example_gateway :: ApiContentGenerator_fields where
  "example_gateway =
     \<lparr>apiEndpoint = js ''https://gw'', authToken = js ''t'', api_model = js ''gpt-4o''\<rparr>"

definition example_reply :: "ChatApiMetadata option \<Rightarrow> ChatApiResponse" where
  "example_reply md =
     \<lparr>message_a = js ''hi'', model_name_a = js ''gpt-4o'', mode = js ''gateway'', metadata = md\<rparr>"

definition example_fetch :: "ChatApiMetadata option \<Rightarrow> FetchRequest \<Rightarrow> js_error + HttpResponse"
  where
  "example_fetch md q =
     Inr \<lparr>ok = True, status = 200, statusText = js ''OK'', response_text = Inr (js []),
          response_json = Inr (example_reply md), body = None\<rparr>"

section \<open>Streaming through the gateway (ApiContentGenerator)\<close>

text \<open>
  The payload of a frame, \<^verbatim>\<open>JSON.parse(line.slice(6)) as ChatStreamChunk\<close>. The parser
  is the runtime's and is a parameter \<open>parse\<close> of the model: \<open>None\<close> when parsing the
  payload or reading the parsed value's fields throws, otherwise the two fields the
  adapter reads, each of which the payload may lack.
\<close>

record ChatStreamChunk =
  chunk :: "jsstring option"
  finished :: "bool option"

type_synonym json_parse = "jsstring \<Rightarrow> ChatStreamChunk option"

text \<open>
  \<^verbatim>\<open>s.split('\n')\<close>: the pieces between the line feeds, at least one. \<^verbatim>\<open>lines.pop()\<close>
  takes the last piece off the array and returns it, or \<^verbatim>\<open>undefined\<close> for an empty
  array.
\<close>

fun split_newline :: "jsstring \<Rightarrow> jsstring list" where
  "split_newline [] = [[]]"
| "split_newline (c # cs) =
     (if c = 0x0A then [] # split_newline cs
      else (case split_newline cs of
              l # ls \<Rightarrow> (c # l) # ls
            | [] \<Rightarrow> [[c]]))"

definition pop :: "'a list \<Rightarrow> 'a option \<times> 'a list" where
  "pop xs = (case rev xs of [] \<Rightarrow> (None, []) | x # sx \<Rightarrow> (Some x, rev sx))"

text \<open>
  The body of \<^verbatim>\<open>for (const line of lines)\<close>: the responses one line yields. A blank
  line and a line without the prefix yield nothing; a payload that does not parse is
  caught and skipped; a parsed frame yields one response when its \<^verbatim>\<open>chunk\<close> is truthy.
\<close>

definition line_responses :: "json_parse \<Rightarrow> jsstring \<Rightarrow> GenerateContentResponse list" where
  "line_responses parse line =
     (if trim line = js [] then []
      else if prefix (js ''data: '') line then
        (case parse (drop 6 line) of
           None \<Rightarrow> []
         | Some data_c \<Rightarrow>
             if \<not> falsy (chunk data_c) then
               [GenerateContentResponseClass\<lparr>candidates :=
                  [\<lparr>content = \<lparr>parts = [Part (chunk data_c)], role = js ''model''\<rparr>,
                    finishReason = (if finished data_c = Some True then STOP
                                    else FINISH_REASON_UNSPECIFIED)\<rparr>]\<rparr>]
             else [])
      else [])"

text \<open>
  The \<^verbatim>\<open>while (true)\<close> loop over \<^verbatim>\<open>reader.read()\<close>: the blocks still to be read and the
  buffer. The loop ends when the reader is done; what is left in the buffer then is
  not processed.
\<close>

fun read_loop :: "json_parse \<Rightarrow> jsstring \<Rightarrow> jsstring list \<Rightarrow> GenerateContentResponse list" where
  "read_loop parse buffer [] = []"
| "read_loop parse buffer (value_b # rest) =
     (let buffer1 = buffer @ value_b;
          (popped, lines) = pop (split_newline buffer1);
          buffer2 = or_string popped (js [])
      in concat (map (line_responses parse) lines) @ read_loop parse buffer2 rest)"

definition Api_convertApiStreamToGemini ::
  "json_parse \<Rightarrow> (FetchRequest \<Rightarrow> js_error + HttpResponse) \<Rightarrow> ApiContentGenerator_fields
     \<Rightarrow> ChatApiRequest \<Rightarrow> GenerateContentResponse list traced" where
  "Api_convertApiStreamToGemini parse fetch this apiRequest =
     ([Fetch (apiEndpoint this @ js ''/api/chat/stream'')],
      (case fetch \<lparr>url = apiEndpoint this @ js ''/api/chat/stream'',
                   authorization = js ''Bearer '' @ authToken this,
                   body_r = apiRequest\<rparr> of
         Inl e \<Rightarrow> Inl e
       | Inr response \<Rightarrow>
           if \<not> ok response then
             (case response_text response of
                Inl e \<Rightarrow> Inl e
              | Inr errorText \<Rightarrow>
                  Inl (Error (js ''API stream request failed: ''
                        @ Number_toString (status response)
                        @ js '' '' @ statusText response @ js '' - '' @ errorText)))
           else (case body response of
                   None \<Rightarrow> Inl (Error (js ''No response body reader available''))
                 | Some blocks \<Rightarrow> Inr (read_loop parse (js []) blocks))))"

text \<open>
  \<open>generateContentStream\<close> returns the generator; the responses are those the generator
  yields when it is run to its end.
\<close>

definition Api_generateContentStream ::
  "json_parse \<Rightarrow> (FetchRequest \<Rightarrow> js_error + HttpResponse) \<Rightarrow> ApiContentGenerator_fields
     \<Rightarrow> GenerateContentParameters \<Rightarrow> GenerateContentResponse list traced" where
  "Api_generateContentStream parse fetch this request =
     (let message = Api_convertContentsToMessage (contents request);
          apiRequest = \<lparr>message_r = message, model_name = mapToApiModel (api_model this),
                        stream = Some True\<rparr>
      in Api_convertApiStreamToGemini parse fetch this apiRequest)"

subsection \<open>Frames, as the specification describes them\<close>

text \<open>
  A line is a run of code units without a line feed. A well-formed frame has the prefix
  and a payload that parses to non-empty chunk text; a malformed line has the prefix and
  a payload that does not parse; a skipped line is blank or lacks the prefix. The canonical
  chunk of a well-formed frame carries its text, with STOP when the frame is marked
  finished.
\<close>

definition is_line :: "jsstring \<Rightarrow> bool" where
  "is_line l \<longleftrightarrow> 0x0A \<notin> set l"

definition well_formed_frame :: "json_parse \<Rightarrow> jsstring \<Rightarrow> bool" where
  "well_formed_frame parse l \<longleftrightarrow>
     is_line l \<and> prefix (js ''data: '') l \<and>
     (case parse (drop 6 l) of
        None \<Rightarrow> False
      | Some d \<Rightarrow> (case chunk d of None \<Rightarrow> False | Some t \<Rightarrow> t \<noteq> []))"

definition malformed_line :: "json_parse \<Rightarrow> jsstring \<Rightarrow> bool" where
  "malformed_line parse l \<longleftrightarrow>
     is_line l \<and> prefix (js ''data: '') l \<and> parse (drop 6 l) = None"

definition skipped_line :: "jsstring \<Rightarrow> bool" where
  "skipped_line l \<longleftrightarrow> is_line l \<and> (trim l = [] \<or> \<not> prefix (js ''data: '') l)"

definition frame_text :: "json_parse \<Rightarrow> jsstring \<Rightarrow> jsstring" where
  "frame_text parse l =
     (case parse (drop 6 l) of
        None \<Rightarrow> []
      | Some d \<Rightarrow> (case chunk d of None \<Rightarrow> [] | Some t \<Rightarrow> t))"

definition frame_terminal :: "json_parse \<Rightarrow> jsstring \<Rightarrow> bool" where
  "frame_terminal parse l =
     (case parse (drop 6 l) of None \<Rightarrow> False | Some d \<Rightarrow> finished d = Some True)"

definition canonical_chunk :: "json_parse \<Rightarrow> jsstring \<Rightarrow> GenerateContentResponse" where
  "canonical_chunk parse l =
     \<lparr>candidates =
        [\<lparr>content = \<lparr>parts = [Part (Some (frame_text parse l))], role = js ''model''\<rparr>,
          finishReason = (if frame_terminal parse l then STOP else FINISH_REASON_UNSPECIFIED)\<rparr>],
      usageMetadata = None\<rparr>"

text \<open>The text a transport delivers for a sequence of lines: each line and a line feed.\<close>

definition framed :: "jsstring list \<Rightarrow> jsstring" where
  "framed ls = concat (map (\<lambda>l. l @ [0x0A]) ls)"

subsection \<open>An example stream\<close>

text \<open>
  The payload \<^verbatim>\<open>{"chunk":"<t>","finished":<b>}\<close>, a parser that knows the two payloads
  of the example and rejects everything else, and a reply whose body arrives in blocks
  that cut a frame in the middle and ends with a frame that has no line feed.
\<close>

definition json_frame :: "jsstring \<Rightarrow> bool \<Rightarrow> jsstring" where
  "json_frame t b =
     js ''{'' @ [0x22] @ js ''chunk'' @ [0x22] @ js '':'' @ [0x22] @ t @ [0x22] @ js '','' @
     [0x22] @ js ''finished'' @ [0x22] @ js '':'' @ (if b then js ''true'' else js ''false'') @
     js ''}''"

definition example_parse :: json_parse where
  "example_parse payload =
     (if payload = json_frame (js ''Hel'') False
        then Some \<lparr>chunk = Some (js ''Hel''), finished = Some False\<rparr>
      else if payload = json_frame (js ''lo'') True
        then Some \<lparr>chunk = Some (js ''lo''), finished = Some True\<rparr>
      else None)"

definition example_pre :: "jsstring list" where
  "example_pre = [js ''data: '' @ json_frame (js ''Hel'') False, js '' '']"

definition example_bad :: jsstring where
  "example_bad = js ''data: {broken''"

definition example_post :: "jsstring list" where
  "example_post = [js '': keep-alive'', js ''data: '' @ json_frame (js ''lo'') True]"

definition example_fragment :: jsstring where
  "example_fragment = js ''data: '' @ json_frame (js ''lo'') True"

definition example_blocks :: "jsstring list" where
  "example_blocks =
     [take 20 (framed (example_pre @ [example_bad] @ example_post)),
      drop 20 (framed (example_pre @ [example_bad] @ example_post)),
      example_fragment]"

definition example_stream_fetch :: "FetchRequest \<Rightarrow> js_error + HttpResponse" where
  "example_stream_fetch q =
     Inr \<lparr>ok = True, status = 200, statusText = js ''OK'', response_text = Inr (js []),
          response_json = Inl (Error (js ''not JSON'')), body = Some example_blocks\<rparr>"

text \<open>
  A reply of one well-formed frame, the malformed line and a second well-formed frame
  that is not followed by a line feed.
\<close>

definition example_unterminated_blocks :: "jsstring list" where
  "example_unterminated_blocks =
     [framed [js ''data: '' @ json_frame (js ''Hel'') False, example_bad] @
      js ''data: '' @ json_frame (js ''lo'') True]"

definition example_unterminated_fetch :: "FetchRequest \<Rightarrow> js_error + HttpResponse" where
  "example_unterminated_fetch q =
     Inr \<lparr>ok = True, status = 200, statusText = js ''OK'', response_text = Inr (js []),
          response_json = Inl (Error (js ''not JSON'')),
          body = Some example_unterminated_blocks\<rparr>"

definition example_stream_request :: ChatApiRequest where
  "example_stream_request =
     \<lparr>message_r = js ''hello'', model_name = js ''gpt-4o'', stream = Some True\<rparr>"

section \<open>The factory (contentGenerator.ts)\<close>

text \<open>
  \<^verbatim>\<open>AuthType\<close> is a string enum: its members are the strings below, and the
  \<^verbatim>\<open>authType\<close> of a configuration is at run time any string, or \<^verbatim>\<open>undefined\<close>.
\<close>

type_synonym AuthType = jsstring

definition LOGIN_WITH_GOOGLE :: AuthType where
  "LOGIN_WITH_GOOGLE = js ''oauth-personal''"

definition USE_GEMINI :: AuthType where
  "USE_GEMINI = js ''gemini-api-key''"

definition USE_VERTEX_AI :: AuthType where
  "USE_VERTEX_AI = js ''vertex-ai''"

definition CLOUD_SHELL :: AuthType where
  "CLOUD_SHELL = js ''cloud-shell''"

definition USE_OPENAI :: AuthType where
  "USE_OPENAI = js ''openai-api-key''"

definition USE_ANTHROPIC :: AuthType where
  "USE_ANTHROPIC = js ''anthropic-api-key''"

definition USE_API :: AuthType where
  "USE_API = js ''api''"

text \<open>Every field of \<^verbatim>\<open>ContentGeneratorConfig\<close> is optional.\<close>

record ContentGeneratorConfig =
  apiKey :: "jsstring option"
  vertexai :: "bool option"
  authType :: "AuthType option"
  proxy :: "jsstring option"
  openaiApiKey :: "jsstring option"
  openaiModel :: "jsstring option"
  anthropicApiKey :: "jsstring option"
  anthropicModel :: "jsstring option"
  config_apiEndpoint :: "jsstring option"
  apiAuthToken :: "jsstring option"
  apiModel :: "jsstring option"

type_synonym headers = "(jsstring \<times> jsstring) list"

record GoogleGenAIOptions =
  options_apiKey :: "jsstring option"
  options_vertexai :: "bool option"
  options_headers :: headers

text \<open>
  What the factory reads from the process and from \<^verbatim>\<open>gcConfig\<close>, and the two
  constructors it calls that are not part of these sources: \<^verbatim>\<open>createCodeAssistContentGenerator\<close>
  (called with the headers and \<^verbatim>\<open>config.authType\<close>; its result is a generator of type
  \<open>'g\<close>) and \<^verbatim>\<open>new GoogleGenAI(...)\<close> (\<open>'m\<close> is the
  \<^verbatim>\<open>models\<close> object of the client it builds). Either may throw.
\<close>

record ('g, 'm) environment =
  CLI_VERSION :: "jsstring option"
  process_version :: jsstring
  process_platform :: jsstring
  process_arch :: jsstring
  getUsageStatisticsEnabled :: bool
  getInstallationId :: jsstring
  createCodeAssistContentGenerator :: "headers \<Rightarrow> AuthType option \<Rightarrow> js_error + 'g"
  GoogleGenAI :: "GoogleGenAIOptions \<Rightarrow> js_error + 'm"

text \<open>
  The generators the factory can build. The adapter classes are given by the arguments
  of their constructors; \<open>LoggingContentGenerator\<close> wraps another generator.
\<close>

datatype ('g, 'm) ContentGenerator =
    CodeAssistContentGenerator 'g
  | GoogleGenAIWrapper 'm jsstring
  | OpenAIContentGenerator jsstring jsstring
  | AnthropicContentGenerator jsstring jsstring
  | ApiContentGenerator jsstring jsstring jsstring
  | LoggingContentGenerator "('g, 'm) ContentGenerator"

text \<open>A string or \<^verbatim>\<open>undefined\<close> in a template string.\<close>

definition template_string :: "jsstring option \<Rightarrow> jsstring" where
  "template_string x = (case x of None \<Rightarrow> js ''undefined'' | Some s \<Rightarrow> s)"

definition baseHeaders :: "('g, 'm) environment \<Rightarrow> headers" where
  "baseHeaders env =
     (let version = or_string (CLI_VERSION env) (process_version env);
          userAgent = js ''GeminiCLI/'' @ version @ js '' ('' @ process_platform env @ js ''; ''
                        @ process_arch env @ js '')''
      in [(js ''User-Agent'', userAgent)])"

definition createContentGenerator ::
  "('g, 'm) environment \<Rightarrow> ContentGeneratorConfig \<Rightarrow> js_error + ('g, 'm) ContentGenerator" where
  "createContentGenerator env cfg =
     (if authType cfg = Some LOGIN_WITH_GOOGLE \<or> authType cfg = Some CLOUD_SHELL then
        (case createCodeAssistContentGenerator env (baseHeaders env) (authType cfg) of
           Inl e \<Rightarrow> Inl e
         | Inr g \<Rightarrow> Inr (LoggingContentGenerator (CodeAssistContentGenerator g)))
      else if authType cfg = Some USE_GEMINI \<or> authType cfg = Some USE_VERTEX_AI then
        (let headers = (if getUsageStatisticsEnabled env
                        then baseHeaders env @
                             [(js ''x-gemini-api-privileged-user-id'', getInstallationId env)]
                        else baseHeaders env)
         in case GoogleGenAI env
                   \<lparr>options_apiKey = (if apiKey cfg = Some (js []) then None else apiKey cfg),
                    options_vertexai = vertexai cfg,
                    options_headers = headers\<rparr> of
              Inl e \<Rightarrow> Inl e
            | Inr models \<Rightarrow>
                (let modelName = (if vertexai cfg = Some True then js ''vertex-ai''
                                  else js ''gemini-2.5-pro'')
                 in Inr (LoggingContentGenerator (GoogleGenAIWrapper models modelName))))
      else if authType cfg = Some USE_OPENAI then
        (if falsy (openaiApiKey cfg) then
           Inl (Error (js ''OpenAI API key is required for OpenAI authentication''))
         else Inr (LoggingContentGenerator
                (OpenAIContentGenerator (or_string (openaiApiKey cfg) (js []))
                   (or_string (openaiModel cfg) (js ''gpt-4o'')))))
      else if authType cfg = Some USE_ANTHROPIC then
        (if falsy (anthropicApiKey cfg) then
           Inl (Error (js ''Anthropic API key is required for Anthropic authentication''))
         else Inr (LoggingContentGenerator
                (AnthropicContentGenerator (or_string (anthropicApiKey cfg) (js []))
                   (or_string (anthropicModel cfg) (js ''claude-3-5-sonnet-20241022'')))))
      else if authType cfg = Some USE_API then
        (if falsy (config_apiEndpoint cfg) \<or> falsy (apiAuthToken cfg) then
           Inl (Error
             (js ''API endpoint and auth token are required for API-based authentication''))
         else Inr (LoggingContentGenerator
                (ApiContentGenerator (or_string (config_apiEndpoint cfg) (js []))
                   (or_string (apiAuthToken cfg) (js []))
                   (or_string (apiModel cfg) (js ''gpt-4o'')))))
      else Inl (Error (js ''Error creating contentGenerator: Unsupported authType: ''
                  @ template_string (authType cfg))))"

subsection \<open>The specification's selection table\<close>

text \<open>
  The specification's selection: each mode maps to exactly one adapter type, and a
  string that is no mode maps to none.
\<close>

datatype adapter_type =
    CodeAssist_adapter
  | GoogleGenAI_adapter
  | OpenAI_adapter
  | Anthropic_adapter
  | Api_adapter
  | Logging_decorator

fun adapter_type_of :: "('g, 'm) ContentGenerator \<Rightarrow> adapter_type" where
  "adapter_type_of (CodeAssistContentGenerator g) = CodeAssist_adapter"
| "adapter_type_of (GoogleGenAIWrapper m n) = GoogleGenAI_adapter"
| "adapter_type_of (OpenAIContentGenerator k m) = OpenAI_adapter"
| "adapter_type_of (AnthropicContentGenerator k m) = Anthropic_adapter"
| "adapter_type_of (ApiContentGenerator e t m) = Api_adapter"
| "adapter_type_of (LoggingContentGenerator w) = Logging_decorator"

definition adapter_for :: "AuthType \<Rightarrow> adapter_type option" where
  "adapter_for t =
     (if t = LOGIN_WITH_GOOGLE \<or> t = CLOUD_SHELL then Some CodeAssist_adapter
      else if t = USE_GEMINI \<or> t = USE_VERTEX_AI then Some GoogleGenAI_adapter
      else if t = USE_OPENAI then Some OpenAI_adapter
      else if t = USE_ANTHROPIC then Some Anthropic_adapter
      else if t = USE_API then Some Api_adapter
      else None)"

text \<open>The recognized modes.\<close>

definition AuthType_values :: "AuthType list" where
  "AuthType_values =
     [LOGIN_WITH_GOOGLE, USE_GEMINI, USE_VERTEX_AI, CLOUD_SHELL, USE_OPENAI, USE_ANTHROPIC,
      USE_API]"

subsection \<open>An example environment\<close>

text \<open>
  An environment whose two outside constructors succeed, and a Gemini configuration
  without an API key.
\<close>

definition example_env :: "(AuthType option, GoogleGenAIOptions) environment" where
  "example_env =
     \<lparr>CLI_VERSION = None, process_version = js ''v20.0.0'', process_platform = js ''linux'',
      process_arch = js ''x64'', getUsageStatisticsEnabled = False,
      getInstallationId = js ''id'',
      createCodeAssistContentGenerator = (\<lambda>h a. Inr a),
      GoogleGenAI = (\<lambda>options. Inr options)\<rparr>"

definition example_config :: "AuthType option \<Rightarrow> ContentGeneratorConfig" where
  "example_config a =
     \<lparr>apiKey = None, vertexai = Some False, authType = a, proxy = None,
      openaiApiKey = None, openaiModel = None, anthropicApiKey = None, anthropicModel = None,
      config_apiEndpoint = None, apiAuthToken = None, apiModel = None\<rparr>"

section \<open>Facts about code units\<close>

lemma unat_cu: "unat (cu c) = of_char c"
proof -
  have "(of_char c :: nat) < 65536"
    by (rule less_trans[OF nat_of_char_less_256]) simp
  then show ?thesis
    by (simp add: cu_def unat_of_nat)
qed

lemma cu_eq_iff [simp]: "cu a = cu b \<longleftrightarrow> a = b"
proof
  assume "cu a = cu b"
  then have "unat (cu a) = unat (cu b)" by (rule arg_cong)
  then have "(of_char a :: nat) = of_char b" by (simp only: unat_cu)
  then show "a = b" by (rule of_char_eqI)
next
  assume "a = b" then show "cu a = cu b" by (rule arg_cong)
qed

lemma inj_cu: "inj cu"
  by (rule injI) (simp only: cu_eq_iff)

lemma js_eq_iff [simp]: "js a = js b \<longleftrightarrow> a = b"
  unfolding js_def by (rule inj_map_eq_map[OF inj_cu])

lemma js_Nil [simp]: "js [] = []"
  by (simp add: js_def)

lemma js_eq_Nil [simp]: "js s = [] \<longleftrightarrow> s = []"
  by (simp add: js_def)

lemma length_js [simp]: "length (js s) = length s"
  by (simp add: js_def)

section \<open>The model mapping table\<close>

lemma find_internal_None:
  "List.find (\<lambda>m. internal m = x) API_MODEL_MAPPINGS = None \<longleftrightarrow>
     x \<notin> internal ` set API_MODEL_MAPPINGS"
  by (auto simp: find_None_iff)

lemma find_api_None:
  "List.find (\<lambda>m. api m = x) API_MODEL_MAPPINGS = None \<longleftrightarrow>
     x \<notin> api ` set API_MODEL_MAPPINGS"
  by (auto simp: find_None_iff)

lemma all_before_take:
  assumes "i \<le> length xs" and "\<forall>x \<in> set (take i xs). P x"
  shows "\<forall>j < i. P (xs ! j)"
proof (intro allI impI)
  fix j assume "j < i"
  with assms(1) have "take i xs ! j \<in> set (take i xs)"
    by (intro nth_mem) simp
  with \<open>j < i\<close> have "xs ! j \<in> set (take i xs)"
    by simp
  with assms(2) show "P (xs ! j)" by blast
qed

text \<open>
  C1. Every internal id of the table survives the round trip through its api id, except
  the two legacy entries \<open>gemini-2.5-flash\<close> and \<open>gemini-2.5-flash-lite\<close>, whose api id
  \<open>gemini-1.5-flash\<close> is resolved back to the internal id \<open>gemini-1.5-flash\<close>.
\<close>

theorem roundtrip_registered:
  "\<forall>m \<in> set API_MODEL_MAPPINGS.
     mapFromApiModel (mapToApiModel (internal m)) =
       (if internal m = js ''gemini-2.5-flash'' \<or> internal m = js ''gemini-2.5-flash-lite''
        then js ''gemini-1.5-flash'' else internal m)"
  by (simp add: API_MODEL_MAPPINGS_def mapToApiModel_def mapFromApiModel_def)

theorem roundtrip_registered_witness:
  "mapFromApiModel (mapToApiModel (js ''claude-opus-4-1'')) = js ''claude-opus-4-1'' \<and>
   mapFromApiModel (mapToApiModel (js ''gemini-2.5-flash-lite'')) = js ''gemini-1.5-flash''"
proof -
  let ?a = "\<lparr>internal = js ''claude-opus-4-1'', api = js ''claude-opus-4-1-20250805'',
             provider = P_anthropic\<rparr>"
  let ?b = "\<lparr>internal = js ''gemini-2.5-flash-lite'', api = js ''gemini-1.5-flash'',
             provider = P_google\<rparr>"
  have a: "?a \<in> set API_MODEL_MAPPINGS" and b: "?b \<in> set API_MODEL_MAPPINGS"
    by (simp_all add: API_MODEL_MAPPINGS_def)
  from roundtrip_registered [rule_format, OF a] roundtrip_registered [rule_format, OF b]
  show ?thesis by simp
qed

text \<open>
  C9. An id that is neither an internal id nor an api id of any table entry is echoed by
  \<open>mapToApiModel\<close>, has no provider and is not supported; every id that is an internal
  or an api id of some entry is supported. In particular \<open>claude-opus-4-1\<close> is supported
  and \<open>not-a-model\<close> is not. The lookups are total functions: none has a failing branch.
\<close>

theorem unregistered_ids:
  "(x \<notin> internal ` set API_MODEL_MAPPINGS \<union> api ` set API_MODEL_MAPPINGS \<longrightarrow>
      mapToApiModel x = x \<and> getModelProvider x = None \<and> \<not> isModelSupported x) \<and>
   (y \<in> internal ` set API_MODEL_MAPPINGS \<union> api ` set API_MODEL_MAPPINGS \<longrightarrow>
      isModelSupported y) \<and>
   isModelSupported (js ''claude-opus-4-1'') \<and> \<not> isModelSupported (js ''not-a-model'')"
proof (intro conjI impI)
  assume x: "x \<notin> internal ` set API_MODEL_MAPPINGS \<union> api ` set API_MODEL_MAPPINGS"
  then have fi: "List.find (\<lambda>m. internal m = x) API_MODEL_MAPPINGS = None"
    and fa: "List.find (\<lambda>m. api m = x) API_MODEL_MAPPINGS = None"
    by (simp_all add: find_internal_None find_api_None)
  show "mapToApiModel x = x"
    by (simp add: mapToApiModel_def fi)
  show "getModelProvider x = None"
    by (simp add: getModelProvider_def fi fa)
  from x show "\<not> isModelSupported x"
    unfolding isModelSupported_def list_ex_iff by blast
next
  assume "y \<in> internal ` set API_MODEL_MAPPINGS \<union> api ` set API_MODEL_MAPPINGS"
  then show "isModelSupported y"
    unfolding isModelSupported_def list_ex_iff by blast
next
  show "isModelSupported (js ''claude-opus-4-1'')"
    by (simp add: isModelSupported_def API_MODEL_MAPPINGS_def)
  show "\<not> isModelSupported (js ''not-a-model'')"
    by (simp add: isModelSupported_def API_MODEL_MAPPINGS_def)
qed

theorem unregistered_ids_witness:
  "mapToApiModel (js ''not-a-model'') = js ''not-a-model'' \<and>
   getModelProvider (js ''not-a-model'') = None \<and>
   \<not> isModelSupported (js ''not-a-model'') \<and>
   isModelSupported (js ''claude-3-5-haiku-20241022'')"
proof -
  have x: "js ''not-a-model'' \<notin>
             internal ` set API_MODEL_MAPPINGS \<union> api ` set API_MODEL_MAPPINGS"
    by (simp add: API_MODEL_MAPPINGS_def)
  have y: "js ''claude-3-5-haiku-20241022'' \<in>
             internal ` set API_MODEL_MAPPINGS \<union> api ` set API_MODEL_MAPPINGS"
    by (simp add: API_MODEL_MAPPINGS_def)
  from unregistered_ids [of "js ''not-a-model''" "js ''claude-3-5-haiku-20241022''"] x y
  show ?thesis by blast
qed

text \<open>
  C10 (as amended). When several entries share an api id, \<open>mapFromApiModel\<close> returns the
  internal id of the earliest entry with that api id; \<open>gemini-1.5-flash\<close> maps to itself;
  and a legacy internal id is returned only when it is itself the input, echoed by the
  no-mapping fallback.
\<close>

theorem mapFromApiModel_earliest:
  "(\<forall>i < length API_MODEL_MAPPINGS.
      api (API_MODEL_MAPPINGS ! i) = x \<and> (\<forall>j < i. api (API_MODEL_MAPPINGS ! j) \<noteq> x) \<longrightarrow>
      mapFromApiModel x = internal (API_MODEL_MAPPINGS ! i)) \<and>
   mapFromApiModel (js ''gemini-1.5-flash'') = js ''gemini-1.5-flash'' \<and>
   (mapFromApiModel x = js ''gemini-2.5-flash'' \<longrightarrow> x = js ''gemini-2.5-flash'') \<and>
   (mapFromApiModel x = js ''gemini-2.5-flash-lite'' \<longrightarrow> x = js ''gemini-2.5-flash-lite'')"
proof (intro conjI allI impI)
  fix i
  assume "i < length API_MODEL_MAPPINGS"
    and "api (API_MODEL_MAPPINGS ! i) = x \<and> (\<forall>j < i. api (API_MODEL_MAPPINGS ! j) \<noteq> x)"
  then have "List.find (\<lambda>m. api m = x) API_MODEL_MAPPINGS = Some (API_MODEL_MAPPINGS ! i)"
    unfolding find_Some_iff by blast
  then show "mapFromApiModel x = internal (API_MODEL_MAPPINGS ! i)"
    by (simp add: mapFromApiModel_def)
next
  show "mapFromApiModel (js ''gemini-1.5-flash'') = js ''gemini-1.5-flash''"
    by (simp add: mapFromApiModel_def API_MODEL_MAPPINGS_def)
next
  assume "mapFromApiModel x = js ''gemini-2.5-flash''"
  then show "x = js ''gemini-2.5-flash''"
    by (simp add: mapFromApiModel_def API_MODEL_MAPPINGS_def split: if_splits)
next
  assume "mapFromApiModel x = js ''gemini-2.5-flash-lite''"
  then show "x = js ''gemini-2.5-flash-lite''"
    by (simp add: mapFromApiModel_def API_MODEL_MAPPINGS_def split: if_splits)
qed

theorem mapFromApiModel_earliest_witness:
  "mapFromApiModel (js ''gemini-1.5-flash'') = internal (API_MODEL_MAPPINGS ! 11) \<and>
   api (API_MODEL_MAPPINGS ! 11) = js ''gemini-1.5-flash'' \<and>
   js ''gemini-1.5-flash'' \<notin> api ` set (take 11 API_MODEL_MAPPINGS) \<and>
   mapFromApiModel (js ''gemini-2.5-flash'') = js ''gemini-2.5-flash'' \<and>
   mapFromApiModel (js ''gemini-2.5-flash-lite'') = js ''gemini-2.5-flash-lite''"
proof -
  have len: "11 < length API_MODEL_MAPPINGS"
    by (simp add: API_MODEL_MAPPINGS_def)
  have at: "api (API_MODEL_MAPPINGS ! 11) = js ''gemini-1.5-flash''"
    by (simp add: API_MODEL_MAPPINGS_def)
  have notin: "js ''gemini-1.5-flash'' \<notin> api ` set (take 11 API_MODEL_MAPPINGS)"
    by (simp add: API_MODEL_MAPPINGS_def)
  then have "\<forall>x \<in> set (take 11 API_MODEL_MAPPINGS). api x \<noteq> js ''gemini-1.5-flash''"
    by (metis imageI)
  with len have before: "\<forall>j < 11. api (API_MODEL_MAPPINGS ! j) \<noteq> js ''gemini-1.5-flash''"
    by (intro all_before_take) simp_all
  have e1: "mapFromApiModel (js ''gemini-2.5-flash'') = js ''gemini-2.5-flash''"
    and e2: "mapFromApiModel (js ''gemini-2.5-flash-lite'') = js ''gemini-2.5-flash-lite''"
    by (simp_all add: mapFromApiModel_def API_MODEL_MAPPINGS_def)
  from mapFromApiModel_earliest [of "js ''gemini-1.5-flash''"] len at before
  have "mapFromApiModel (js ''gemini-1.5-flash'') = internal (API_MODEL_MAPPINGS ! 11)"
    by blast
  moreover from mapFromApiModel_earliest [of "js ''gemini-2.5-flash''"] e1
  have "js ''gemini-2.5-flash'' = js ''gemini-2.5-flash''" by blast
  moreover from mapFromApiModel_earliest [of "js ''gemini-2.5-flash-lite''"] e2
  have "js ''gemini-2.5-flash-lite'' = js ''gemini-2.5-flash-lite''" by blast
  ultimately show ?thesis using at notin e1 e2 by blast
qed

theorem mapFromApiModel_legacy_counterexample:
  "mapFromApiModel (js ''gemini-2.5-flash'') = js ''gemini-2.5-flash''"
  by (simp add: mapFromApiModel_def API_MODEL_MAPPINGS_def)

section \<open>Content flattening\<close>

lemma js_space: "js '' '' = [0x20]"
  by (simp add: js_def cu_def)

lemma join_loop_pos:
  "k > 0 \<Longrightarrow> join_loop sep es k R = R @ concat (map (\<lambda>e. sep @ element_string e) es)"
  by (induction es arbitrary: k R) (simp_all add: element_string_def Let_def)

lemma join_space_Cons:
  "join_space (x # xs) = x @ concat (map (\<lambda>e. [0x20] @ e) xs)"
  by (induction xs arbitrary: x) simp_all

lemma join_eq_join_space: "join es (js '' '') = join_space (map element_string es)"
proof (cases es)
  case Nil
  then show ?thesis by (simp add: join_def)
next
  case (Cons e es')
  have "join es (js '' '') = join_loop [0x20] es' 1 (element_string e)"
    by (simp add: Cons join_def js_space element_string_def Let_def)
  also have "\<dots> = element_string e @ concat (map (\<lambda>e. [0x20] @ element_string e) es')"
    by (simp add: join_loop_pos)
  also have "\<dots> = join_space (map element_string es)"
    by (simp add: Cons join_space_Cons comp_def)
  finally show ?thesis .
qed

lemma parts_text_spec: "parts_text ps = entry_text_spec (ObjectEntry r ps)"
proof (cases ps)
  case None
  then show ?thesis by (simp add: parts_text_def or_string_def)
next
  case (Some l)
  show ?thesis
    by (simp add: Some parts_text_def or_string_def join_eq_join_space element_string_def comp_def)
qed

lemma content_text_spec: "content_text e = entry_text_spec e"
  by (cases e) (simp_all add: content_text_def parts_text_spec)

lemma join_contents_spec:
  "join (map (\<lambda>content. Some (content_text content)) es) (js '' '') =
     join_space (map entry_text_spec es)"
  by (simp add: join_eq_join_space comp_def element_string_def content_text_spec)

lemma msg_content_content_message: "msg_content (content_message e) = content_text e"
  by (cases e) (simp_all add: content_message_def content_text_def)

lemma join_messages_spec:
  "join (map (\<lambda>msg. Some (msg_content msg)) (map content_message es)) (js '' '') =
     join_space (map entry_text_spec es)"
  by (simp add: join_eq_join_space comp_def element_string_def msg_content_content_message
      content_text_spec)

lemma Api_flatten: "Api_convertContentsToMessage c = flattenToText_spec c"
  by (cases c) (simp_all add: join_contents_spec)

lemma OpenAI_flatten: "OpenAI_extractTextFromContents c = flattenToText_spec c"
  by (cases c) (simp_all add: join_contents_spec)

lemma Anthropic_flatten: "Anthropic_extractTextFromContents c = flattenToText_spec c"
  by (cases c) (simp_all add: join_contents_spec)

lemma OpenAI_messages_text:
  "join (map (\<lambda>msg. Some (msg_content msg)) (OpenAI_convertGeminiMessagesToOpenAI c)) (js '' '')
     = flattenToText_spec c"
proof (cases c)
  case (StringContents s)
  then show ?thesis by (simp add: join_def element_string_def)
next
  case (ArrayContents es)
  then show ?thesis by (simp only: OpenAI_convertGeminiMessagesToOpenAI.simps join_messages_spec flattenToText_spec.simps)
next
  case OtherContents
  then show ?thesis by (simp add: join_def)
qed

lemma Anthropic_messages_text:
  "join (map (\<lambda>msg. Some (msg_content msg)) (Anthropic_convertGeminiMessagesToAnthropic c)) (js '' '')
     = flattenToText_spec c"
proof (cases c)
  case (StringContents s)
  then show ?thesis by (simp add: join_def element_string_def)
next
  case (ArrayContents es)
  then show ?thesis by (simp only: Anthropic_convertGeminiMessagesToAnthropic.simps join_messages_spec flattenToText_spec.simps)
next
  case OtherContents
  then show ?thesis by (simp add: join_def)
qed

lemma ceil_quarter_mono: "m \<le> n \<Longrightarrow> ceil_quarter m \<le> ceil_quarter n"
  unfolding ceil_quarter_def by (intro nat_mono ceiling_mono divide_right_mono) simp_all

lemma ceil_quarter_div: "ceil_quarter n = (n + 3) div 4"
  unfolding ceil_quarter_def by linarith

section \<open>Adapters: finish reasons, token estimates, embeddings\<close>

text \<open>
  C5. The two finish-reason conversions are total functions into the four canonical
  reasons. OpenAI: \<open>stop\<close> gives STOP, \<open>length\<close> MAX_TOKENS, \<open>content_filter\<close> SAFETY.
  Anthropic: \<open>end_turn\<close> and \<open>stop_sequence\<close> give STOP, \<open>max_tokens\<close> MAX_TOKENS.
  Every other native reason, and an absent one, gives FINISH_REASON_UNSPECIFIED.
\<close>

theorem finish_reason_tables:
  "OpenAI_convertFinishReason (Some (js ''stop'')) = STOP \<and>
   OpenAI_convertFinishReason (Some (js ''length'')) = MAX_TOKENS \<and>
   OpenAI_convertFinishReason (Some (js ''content_filter'')) = SAFETY \<and>
   (r \<notin> {Some (js ''stop''), Some (js ''length''), Some (js ''content_filter'')} \<longrightarrow>
      OpenAI_convertFinishReason r = FINISH_REASON_UNSPECIFIED) \<and>
   Anthropic_convertFinishReason (Some (js ''end_turn'')) = STOP \<and>
   Anthropic_convertFinishReason (Some (js ''stop_sequence'')) = STOP \<and>
   Anthropic_convertFinishReason (Some (js ''max_tokens'')) = MAX_TOKENS \<and>
   (r \<notin> {Some (js ''end_turn''), Some (js ''stop_sequence''), Some (js ''max_tokens'')} \<longrightarrow>
      Anthropic_convertFinishReason r = FINISH_REASON_UNSPECIFIED) \<and>
   OpenAI_convertFinishReason None = FINISH_REASON_UNSPECIFIED \<and>
   Anthropic_convertFinishReason None = FINISH_REASON_UNSPECIFIED \<and>
   OpenAI_convertFinishReason r \<in> {STOP, MAX_TOKENS, SAFETY, FINISH_REASON_UNSPECIFIED} \<and>
   Anthropic_convertFinishReason r \<in> {STOP, MAX_TOKENS, SAFETY, FINISH_REASON_UNSPECIFIED}"
  by (simp add: OpenAI_convertFinishReason_def Anthropic_convertFinishReason_def)

theorem finish_reason_tables_witness:
  "OpenAI_convertFinishReason (Some (js ''tool_calls'')) = FINISH_REASON_UNSPECIFIED \<and>
   Anthropic_convertFinishReason (Some (js ''tool_calls'')) = FINISH_REASON_UNSPECIFIED"
proof -
  have "Some (js ''tool_calls'') \<notin>
          {Some (js ''stop''), Some (js ''length''), Some (js ''content_filter'')}"
    and "Some (js ''tool_calls'') \<notin>
          {Some (js ''end_turn''), Some (js ''stop_sequence''), Some (js ''max_tokens'')}"
    by simp_all
  with finish_reason_tables [of "Some (js ''tool_calls'')"] show ?thesis
    by blast
qed

text \<open>
  C8. \<open>convertContentsToMessage\<close> and the three \<open>extractTextFromContents\<close> compute the
  specification's \<open>flattenToText\<close>: a raw string is returned unchanged, an array is the
  single-space join of its entries' texts (a string entry is its own text, an object
  entry the single-space join of its parts' texts), any other shape is the empty string.
  A part without \<^verbatim>\<open>text\<close> contributes the empty string to the join.
\<close>

theorem flatten_matches_spec:
  "Api_convertContentsToMessage c = flattenToText_spec c \<and>
   Api_extractTextFromContents c = flattenToText_spec c \<and>
   OpenAI_extractTextFromContents c = flattenToText_spec c \<and>
   Anthropic_extractTextFromContents c = flattenToText_spec c \<and>
   Api_convertContentsToMessage (ArrayContents es) = join_space (map entry_text_spec es) \<and>
   OpenAI_extractTextFromContents (ArrayContents es) = join_space (map entry_text_spec es) \<and>
   Anthropic_extractTextFromContents (ArrayContents es) = join_space (map entry_text_spec es) \<and>
   flattenToText_spec (StringContents s) = s \<and>
   Api_convertContentsToMessage (StringContents s) = s \<and>
   OpenAI_extractTextFromContents (StringContents s) = s \<and>
   Anthropic_extractTextFromContents (StringContents s) = s \<and>
   Api_convertContentsToMessage OtherContents = [] \<and>
   OpenAI_extractTextFromContents OtherContents = [] \<and>
   Anthropic_extractTextFromContents OtherContents = []"
  by (simp add: Api_flatten OpenAI_flatten Anthropic_flatten Api_extractTextFromContents_def)

text \<open>
  C7. \<open>countTokens\<close> of the three adapters without a counting endpoint makes no
  transport call and returns the ceiling of a quarter of the length of the flattened
  contents; the estimate is monotonic in that length.
\<close>

theorem countTokens_estimate:
  "Api_countTokens c =
     ([], Inr \<lparr>totalTokens = nat \<lceil>real (length (flattenToText_spec c)) / 4\<rceil>\<rparr>) \<and>
   OpenAI_countTokens c =
     ([], Inr \<lparr>totalTokens = nat \<lceil>real (length (flattenToText_spec c)) / 4\<rceil>\<rparr>) \<and>
   Anthropic_countTokens c =
     ([], Inr \<lparr>totalTokens = nat \<lceil>real (length (flattenToText_spec c)) / 4\<rceil>\<rparr>) \<and>
   (length (flattenToText_spec c) \<le> length (flattenToText_spec c') \<longrightarrow>
      (\<exists>t t'. Api_countTokens c = ([], Inr t) \<and> Api_countTokens c' = ([], Inr t') \<and>
         totalTokens t \<le> totalTokens t') \<and>
      (\<exists>t t'. OpenAI_countTokens c = ([], Inr t) \<and> OpenAI_countTokens c' = ([], Inr t') \<and>
         totalTokens t \<le> totalTokens t') \<and>
      (\<exists>t t'. Anthropic_countTokens c = ([], Inr t) \<and> Anthropic_countTokens c' = ([], Inr t') \<and>
         totalTokens t \<le> totalTokens t'))"
proof -
  have api: "Api_countTokens x = ([], Inr \<lparr>totalTokens = ceil_quarter (length (flattenToText_spec x))\<rparr>)"
    for x by (simp add: Api_countTokens_def rethrow_def Api_flatten)
  have openai: "OpenAI_countTokens x = ([], Inr \<lparr>totalTokens = ceil_quarter (length (flattenToText_spec x))\<rparr>)"
    for x by (simp add: OpenAI_countTokens_def rethrow_def OpenAI_messages_text)
  have anthropic: "Anthropic_countTokens x = ([], Inr \<lparr>totalTokens = ceil_quarter (length (flattenToText_spec x))\<rparr>)"
    for x by (simp add: Anthropic_countTokens_def rethrow_def Anthropic_messages_text)
  show ?thesis
    unfolding api openai anthropic
    by (simp add: ceil_quarter_mono) (simp add: ceil_quarter_def)
qed

theorem countTokens_estimate_witness:
  "Api_countTokens (StringContents (js ''hello'')) = ([], Inr \<lparr>totalTokens = 2\<rparr>) \<and>
   OpenAI_countTokens (StringContents (js ''hello'')) = ([], Inr \<lparr>totalTokens = 2\<rparr>) \<and>
   Anthropic_countTokens (StringContents (js ''hello'')) = ([], Inr \<lparr>totalTokens = 2\<rparr>) \<and>
   length (flattenToText_spec (StringContents (js ''hello'')))
     \<le> length (flattenToText_spec (ArrayContents [StringEntry (js ''hello''),
           ObjectEntry (Some (js ''user'')) (Some [Part (Some (js ''big'')), Part (Some (js ''world''))])])) \<and>
   (\<exists>t t'. Api_countTokens (StringContents (js ''hello'')) = ([], Inr t) \<and>
      Api_countTokens (ArrayContents [StringEntry (js ''hello''),
           ObjectEntry (Some (js ''user'')) (Some [Part (Some (js ''big'')), Part (Some (js ''world''))])]) = ([], Inr t') \<and>
      totalTokens t \<le> totalTokens t')"
proof -
  let ?c = "StringContents (js ''hello'')"
  let ?c' = "ArrayContents [StringEntry (js ''hello''),
           ObjectEntry (Some (js ''user'')) (Some [Part (Some (js ''big'')), Part (Some (js ''world''))])]"
  have le: "length (flattenToText_spec ?c) \<le> length (flattenToText_spec ?c')"
    by simp
  have two: "nat \<lceil>real (length (flattenToText_spec ?c)) / 4\<rceil> = 2"
    by simp
  note T = countTokens_estimate [of ?c ?c']
  from T have api: "Api_countTokens ?c = ([], Inr \<lparr>totalTokens = 2\<rparr>)"
    unfolding two by (rule conjunct1)
  from T have openai: "OpenAI_countTokens ?c = ([], Inr \<lparr>totalTokens = 2\<rparr>)"
    unfolding two by (elim conjE)
  from T have anthropic: "Anthropic_countTokens ?c = ([], Inr \<lparr>totalTokens = 2\<rparr>)"
    unfolding two by (elim conjE)
  from T le have "\<exists>t t'. Api_countTokens ?c = ([], Inr t) \<and>
      Api_countTokens ?c' = ([], Inr t') \<and> totalTokens t \<le> totalTokens t'"
    by (elim conjE impE) assumption+
  with api openai anthropic le show ?thesis
    by (intro conjI)
qed


text \<open>
  C6. \<open>embedContent\<close> of the Anthropic and API adapters makes no transport call. When the
  flattened contents are blank after \<open>trim\<close> it throws an error whose message contains
  \<open>No content provided for embedding\<close>; otherwise it returns exactly one embedding with
  an empty vector of values.
\<close>

theorem embedContent_without_endpoint:
  "(trim (flattenToText_spec c) = [] \<longrightarrow>
      (\<exists>m. Api_embedContent c = ([], Inl (Error m)) \<and>
           sublist (js ''No content provided for embedding'') m) \<and>
      (\<exists>m. Anthropic_embedContent c = ([], Inl (Error m)) \<and>
           sublist (js ''No content provided for embedding'') m)) \<and>
   (trim (flattenToText_spec c) \<noteq> [] \<longrightarrow>
      Api_embedContent c = ([], Inr \<lparr>embeddings = [\<lparr>embedding_values = []\<rparr>]\<rparr>) \<and>
      Anthropic_embedContent c = ([], Inr \<lparr>embeddings = [\<lparr>embedding_values = []\<rparr>]\<rparr>))"
proof (intro conjI impI)
  assume blank: "trim (flattenToText_spec c) = []"
  have sub: "sublist M (T @ M)" for T M :: jsstring
    using sublist_appendI [of M T "[]"] by simp
  have "Api_embedContent c =
          ([], Inl (Error (js ''API embedding error: '' @ js ''No content provided for embedding'')))"
    by (simp add: Api_embedContent_def Api_extractTextFromContents_def Api_flatten blank
        rethrow_def)
  then show "\<exists>m. Api_embedContent c = ([], Inl (Error m)) \<and>
           sublist (js ''No content provided for embedding'') m"
    using sub by blast
  have "Anthropic_embedContent c =
          ([], Inl (Error (js ''Anthropic embedding error: '' @
                           js ''No content provided for embedding'')))"
    by (simp add: Anthropic_embedContent_def Anthropic_flatten blank rethrow_def)
  then show "\<exists>m. Anthropic_embedContent c = ([], Inl (Error m)) \<and>
           sublist (js ''No content provided for embedding'') m"
    using sub by blast
next
  assume nonblank: "trim (flattenToText_spec c) \<noteq> []"
  show "Api_embedContent c = ([], Inr \<lparr>embeddings = [\<lparr>embedding_values = []\<rparr>]\<rparr>)"
    by (simp add: Api_embedContent_def Api_extractTextFromContents_def Api_flatten nonblank
        rethrow_def)
  show "Anthropic_embedContent c = ([], Inr \<lparr>embeddings = [\<lparr>embedding_values = []\<rparr>]\<rparr>)"
    by (simp add: Anthropic_embedContent_def Anthropic_flatten nonblank rethrow_def)
qed

theorem embedContent_without_endpoint_witness:
  "trim (flattenToText_spec (StringContents (js ''   ''))) = [] \<and>
   (\<exists>m. Api_embedContent (StringContents (js ''   '')) = ([], Inl (Error m)) \<and>
        sublist (js ''No content provided for embedding'') m) \<and>
   (\<exists>m. Anthropic_embedContent (StringContents (js ''   '')) = ([], Inl (Error m)) \<and>
        sublist (js ''No content provided for embedding'') m) \<and>
   trim (flattenToText_spec (ArrayContents [StringEntry (js ''hi'')])) \<noteq> [] \<and>
   Api_embedContent (ArrayContents [StringEntry (js ''hi'')]) =
     ([], Inr \<lparr>embeddings = [\<lparr>embedding_values = []\<rparr>]\<rparr>) \<and>
   Anthropic_embedContent (ArrayContents [StringEntry (js ''hi'')]) =
     ([], Inr \<lparr>embeddings = [\<lparr>embedding_values = []\<rparr>]\<rparr>)"
proof -
  have blank: "trim (flattenToText_spec (StringContents (js ''   ''))) = []"
    by (simp add: trim_def js_def cu_def isWhiteSpace_def)
  have nonblank: "trim (flattenToText_spec (ArrayContents [StringEntry (js ''hi'')])) \<noteq> []"
    by (simp add: trim_def js_def cu_def isWhiteSpace_def)
  from embedContent_without_endpoint [of "StringContents (js ''   '')"] blank
    embedContent_without_endpoint [of "ArrayContents [StringEntry (js ''hi'')]"] nonblank
  show ?thesis by blast
qed

section \<open>Non-streaming generation: usage counters\<close>

lemma rethrow_Inr: "rethrow tag b = Inr v \<longleftrightarrow> b = Inr v"
  by (cases b) (simp_all add: rethrow_def)

lemma double_of_int_safe: "\<bar>n\<bar> < 2 ^ 53 \<Longrightarrow> double_of_int n = Num n"
proof -
  assume a: "\<bar>n\<bar> < 2 ^ 53"
  then have lt: "nat \<bar>n\<bar> < 2 ^ 53"
    by (simp add: nat_less_iff)
  have "(2::nat) ^ 53 < 2 ^ 1024"
    by (rule power_strict_increasing) simp_all
  with lt have "\<not> (2::nat) ^ 1024 \<le> nat \<bar>n\<bar>"
    by linarith
  with lt show ?thesis
    by (auto simp: double_of_int_def round_to_double_def Let_def)
qed

lemma bit_length_bound: "0 < n \<Longrightarrow> 2 ^ (bit_length n - 1) \<le> n"
proof (induction n rule: bit_length.induct)
  case (1 n)
  show ?case
  proof (cases "n div 2 = 0")
    case True
    with "1.prems" have "n = 1" by auto
    then show ?thesis
      by (simp add: bit_length.simps [of "Suc 0"] bit_length.simps [of 0])
  next
    case False
    with "1.prems" "1.IH" have ih: "2 ^ (bit_length (n div 2) - 1) \<le> n div 2"
      by simp
    from False have pos: "0 < bit_length (n div 2)"
      by (simp add: bit_length.simps [of "n div 2"])
    have "bit_length n - 1 = Suc (bit_length (n div 2) - 1)"
      using "1.prems" pos by (simp add: bit_length.simps [of n])
    then have "(2::nat) ^ (bit_length n - 1) = 2 * 2 ^ (bit_length (n div 2) - 1)"
      by simp
    also have "\<dots> \<le> 2 * (n div 2)"
      using ih by simp
    also have "\<dots> \<le> n"
      by simp
    finally show ?thesis .
  qed
qed

lemma round_to_double_pos: "0 < n \<Longrightarrow> 0 < round_to_double n"
proof -
  assume n: "0 < n"
  show ?thesis
  proof (cases "n < 2 ^ 53")
    case True
    with n show ?thesis by (simp add: round_to_double_def)
  next
    case False
    define q :: nat where "q = 2 ^ (bit_length n - 53)"
    have "q \<le> 2 ^ (bit_length n - 1)"
      unfolding q_def by (rule power_increasing) simp_all
    with bit_length_bound [OF n] have qn: "q \<le> n" by simp
    have qpos: "0 < q" by (simp add: q_def)
    have "0 < n div q"
      using qn qpos by (simp add: div_greater_zero_iff)
    then have "q \<le> q * (n div q)"
      by simp
    also have "\<dots> = n - n mod q"
      by (simp add: minus_mod_eq_mult_div)
    finally have "q \<le> n - n mod q" .
    with qpos have "n mod q < n"
      by linarith
    then have "n mod 2 ^ (bit_length n - 53) < n"
      unfolding q_def .
    then show ?thesis
      using False by (auto simp: round_to_double_def Let_def)
  qed
qed

lemma double_of_int_zero_iff: "double_of_int n = Num 0 \<longleftrightarrow> n = 0"
proof
  assume z: "double_of_int n = Num 0"
  show "n = 0"
  proof (rule ccontr)
    assume "n \<noteq> 0"
    then have "0 < round_to_double (nat \<bar>n\<bar>)"
      by (intro round_to_double_pos) simp
    with z show False
      by (auto simp: double_of_int_def Let_def split: if_splits)
  qed
next
  assume "n = 0"
  then show "double_of_int n = Num 0"
    by (simp add: double_of_int_safe)
qed

lemma double_of_int_not_NaN: "double_of_int n \<noteq> NaN"
  by (simp add: double_of_int_def Let_def)

lemma truthy_double_of_int: "truthy_number (double_of_int n) \<longleftrightarrow> n \<noteq> 0"
  using double_of_int_zero_iff [of n] double_of_int_not_NaN [of n]
  by (cases "double_of_int n") (simp_all add: truthy_number_def)

lemma double_of_int_0: "double_of_int 0 = Num 0"
  by (simp add: double_of_int_safe)

lemma or_zero_read:
  "or_zero (read_number x) = (case x of None \<Rightarrow> Num 0 | Some n \<Rightarrow> double_of_int n)"
  by (cases x) (auto simp: or_zero_def read_number_def truthy_double_of_int double_of_int_0)

lemma or_zero_not_NaN: "or_zero x \<noteq> NaN"
  by (cases x) (auto simp: or_zero_def truthy_number_def)

lemma js_add_rounds:
  "js_add (read_number (Some (2 ^ 53))) (read_number (Some 1)) = Num (2 ^ 53)"
  by (simp add: js_add_def read_number_def double_of_int_def round_to_double_def Let_def
      bit_length.simps)


text \<open>
  C4 (as amended). The OpenAI and Anthropic response conversions always set the usage
  block, and each of its three counters is a number: the provider's counter as the
  adapter reads it, or zero when the provider omits it. The Anthropic total is zero when
  either counter is omitted and otherwise the sum of the two as doubles, which is their
  exact sum while the counters and the sum stay below \<open>2 ^ 53\<close> in absolute value. The
  gateway conversion sets the usage block only when \<^verbatim>\<open>metadata.tokens_used\<close> is present
  and not zero (prompt count zero, candidate and total counts the reported value) and
  leaves it absent otherwise. A counter below \<open>2 ^ 53\<close> in absolute value is read exactly.
  Every successful \<open>generateContent\<close> returns the conversion of the response its
  transport gave.
\<close>

theorem usage_mapping:
  "usageMetadata (OpenAI_convertOpenAIResponseToGemini r) = Some
     \<lparr>promptTokenCount =
        (case Option.bind (usage r) prompt_tokens of None \<Rightarrow> Num 0 | Some n \<Rightarrow> double_of_int n),
      candidatesTokenCount =
        (case Option.bind (usage r) completion_tokens of
           None \<Rightarrow> Num 0 | Some n \<Rightarrow> double_of_int n),
      totalTokenCount =
        (case Option.bind (usage r) total_tokens of None \<Rightarrow> Num 0 | Some n \<Rightarrow> double_of_int n)\<rparr> \<and>
   (\<exists>u. usageMetadata (Anthropic_convertAnthropicResponseToGemini a) = Some u \<and>
        promptTokenCount u =
          (case Option.bind (anthropic_usage a) input_tokens of
             None \<Rightarrow> Num 0 | Some n \<Rightarrow> double_of_int n) \<and>
        candidatesTokenCount u =
          (case Option.bind (anthropic_usage a) output_tokens of
             None \<Rightarrow> Num 0 | Some n \<Rightarrow> double_of_int n) \<and>
        (Option.bind (anthropic_usage a) input_tokens = None \<or>
         Option.bind (anthropic_usage a) output_tokens = None \<longrightarrow>
           totalTokenCount u = Num 0) \<and>
        (\<forall>i j. Option.bind (anthropic_usage a) input_tokens = Some i \<and>
               Option.bind (anthropic_usage a) output_tokens = Some j \<longrightarrow>
               totalTokenCount u =
                 or_zero (Some (add_numbers (double_of_int i) (double_of_int j)))) \<and>
        (\<forall>i j. Option.bind (anthropic_usage a) input_tokens = Some i \<and>
               Option.bind (anthropic_usage a) output_tokens = Some j \<and>
               \<bar>i\<bar> < 2 ^ 53 \<and> \<bar>j\<bar> < 2 ^ 53 \<and> \<bar>i + j\<bar> < 2 ^ 53 \<longrightarrow>
               totalTokenCount u = Num (i + j)) \<and>
        totalTokenCount u \<noteq> NaN) \<and>
   usageMetadata (Api_convertApiResponseToGemini g) =
     (case Option.bind (metadata g) tokens_used of
        None \<Rightarrow> None
      | Some t \<Rightarrow> if t = 0 then None
                  else Some \<lparr>promptTokenCount = Num 0, candidatesTokenCount = double_of_int t,
                             totalTokenCount = double_of_int t\<rparr>) \<and>
   (\<bar>n\<bar> < 2 ^ 53 \<longrightarrow> double_of_int n = Num n) \<and>
   double_of_int n \<noteq> NaN \<and>
   (OpenAI_generateContent create_o m request = (calls, Inr resp) \<longrightarrow>
      (\<exists>p native. create_o p = Inr native \<and> calls = [OpenAI_chat_completions_create] \<and>
         resp = OpenAI_convertOpenAIResponseToGemini native)) \<and>
   (Anthropic_generateContent create_a m request = (calls, Inr resp) \<longrightarrow>
      (\<exists>p native. create_a p = Inr native \<and> calls = [Anthropic_messages_create] \<and>
         resp = Anthropic_convertAnthropicResponseToGemini native)) \<and>
   (Api_generateContent fetch this request = (calls, Inr resp) \<longrightarrow>
      (\<exists>q h native. fetch q = Inr h \<and> ok h \<and> response_json h = Inr native \<and>
         resp = Api_convertApiResponseToGemini native))"
proof (intro conjI impI)
  show "usageMetadata (OpenAI_convertOpenAIResponseToGemini r) = Some
     \<lparr>promptTokenCount =
        (case Option.bind (usage r) prompt_tokens of None \<Rightarrow> Num 0 | Some n \<Rightarrow> double_of_int n),
      candidatesTokenCount =
        (case Option.bind (usage r) completion_tokens of
           None \<Rightarrow> Num 0 | Some n \<Rightarrow> double_of_int n),
      totalTokenCount =
        (case Option.bind (usage r) total_tokens of None \<Rightarrow> Num 0 | Some n \<Rightarrow> double_of_int n)\<rparr>"
    by (simp add: OpenAI_convertOpenAIResponseToGemini_def Let_def or_zero_read)
next
  let ?i = "Option.bind (anthropic_usage a) input_tokens"
  let ?j = "Option.bind (anthropic_usage a) output_tokens"
  let ?total = "or_zero (Some (js_add (read_number ?i) (read_number ?j)))"
  have u: "usageMetadata (Anthropic_convertAnthropicResponseToGemini a) = Some
      \<lparr>promptTokenCount = (case ?i of None \<Rightarrow> Num 0 | Some n \<Rightarrow> double_of_int n),
       candidatesTokenCount = (case ?j of None \<Rightarrow> Num 0 | Some n \<Rightarrow> double_of_int n),
       totalTokenCount = ?total\<rparr>"
    by (simp add: Anthropic_convertAnthropicResponseToGemini_def Let_def or_zero_read)
  have omitted: "?i = None \<or> ?j = None \<longrightarrow> ?total = Num 0"
    by (auto simp: js_add_def read_number_def or_zero_def truthy_number_def
        split: option.splits)
  have both: "\<forall>i j. ?i = Some i \<and> ?j = Some j \<longrightarrow>
      ?total = or_zero (Some (add_numbers (double_of_int i) (double_of_int j)))"
    by (simp add: js_add_def read_number_def)
  have safe: "\<forall>i j. ?i = Some i \<and> ?j = Some j \<and>
      \<bar>i\<bar> < 2 ^ 53 \<and> \<bar>j\<bar> < 2 ^ 53 \<and> \<bar>i + j\<bar> < 2 ^ 53 \<longrightarrow> ?total = Num (i + j)"
    by (simp add: js_add_def read_number_def double_of_int_safe or_zero_def truthy_number_def)
  show "\<exists>u. usageMetadata (Anthropic_convertAnthropicResponseToGemini a) = Some u \<and>
        promptTokenCount u =
          (case Option.bind (anthropic_usage a) input_tokens of
             None \<Rightarrow> Num 0 | Some n \<Rightarrow> double_of_int n) \<and>
        candidatesTokenCount u =
          (case Option.bind (anthropic_usage a) output_tokens of
             None \<Rightarrow> Num 0 | Some n \<Rightarrow> double_of_int n) \<and>
        (Option.bind (anthropic_usage a) input_tokens = None \<or>
         Option.bind (anthropic_usage a) output_tokens = None \<longrightarrow>
           totalTokenCount u = Num 0) \<and>
        (\<forall>i j. Option.bind (anthropic_usage a) input_tokens = Some i \<and>
               Option.bind (anthropic_usage a) output_tokens = Some j \<longrightarrow>
               totalTokenCount u =
                 or_zero (Some (add_numbers (double_of_int i) (double_of_int j)))) \<and>
        (\<forall>i j. Option.bind (anthropic_usage a) input_tokens = Some i \<and>
               Option.bind (anthropic_usage a) output_tokens = Some j \<and>
               \<bar>i\<bar> < 2 ^ 53 \<and> \<bar>j\<bar> < 2 ^ 53 \<and> \<bar>i + j\<bar> < 2 ^ 53 \<longrightarrow>
               totalTokenCount u = Num (i + j)) \<and>
        totalTokenCount u \<noteq> NaN"
    unfolding u using omitted both safe or_zero_not_NaN by simp
next
  show "usageMetadata (Api_convertApiResponseToGemini g) =
     (case Option.bind (metadata g) tokens_used of
        None \<Rightarrow> None
      | Some t \<Rightarrow> if t = 0 then None
                  else Some \<lparr>promptTokenCount = Num 0, candidatesTokenCount = double_of_int t,
                             totalTokenCount = double_of_int t\<rparr>)"
    by (simp add: Api_convertApiResponseToGemini_def Let_def GenerateContentResponseClass_def
        read_number_def truthy_double_of_int split: option.splits)
next
  assume "\<bar>n\<bar> < 2 ^ 53"
  then show "double_of_int n = Num n"
    by (rule double_of_int_safe)
next
  show "double_of_int n \<noteq> NaN"
    by (rule double_of_int_not_NaN)
next
  assume "OpenAI_generateContent create_o m request = (calls, Inr resp)"
  then show "\<exists>p native. create_o p = Inr native \<and> calls = [OpenAI_chat_completions_create] \<and>
         resp = OpenAI_convertOpenAIResponseToGemini native"
    by (auto simp: OpenAI_generateContent_def Let_def rethrow_Inr split: sum.splits)
next
  assume "Anthropic_generateContent create_a m request = (calls, Inr resp)"
  then show "\<exists>p native. create_a p = Inr native \<and> calls = [Anthropic_messages_create] \<and>
         resp = Anthropic_convertAnthropicResponseToGemini native"
    by (auto simp: Anthropic_generateContent_def Let_def rethrow_Inr split: sum.splits)
next
  assume "Api_generateContent fetch this request = (calls, Inr resp)"
  then show "\<exists>q h native. fetch q = Inr h \<and> ok h \<and> response_json h = Inr native \<and>
         resp = Api_convertApiResponseToGemini native"
    by (auto simp: Api_generateContent_def Api_makeApiRequest_def Let_def rethrow_Inr
        split: sum.splits prod.splits if_splits)
qed


theorem usage_mapping_witness:
  "OpenAI_generateContent example_openai_create (js ''gpt-4o'') example_request =
     ([OpenAI_chat_completions_create],
      Inr (OpenAI_convertOpenAIResponseToGemini example_openai_response)) \<and>
   usageMetadata (OpenAI_convertOpenAIResponseToGemini example_openai_response) =
     Some \<lparr>promptTokenCount = Num 7, candidatesTokenCount = Num 0,
           totalTokenCount = Num 0\<rparr> \<and>
   Anthropic_generateContent example_anthropic_create (js ''claude-opus-4-1'') example_request =
     ([Anthropic_messages_create],
      Inr (Anthropic_convertAnthropicResponseToGemini example_anthropic_response)) \<and>
   usageMetadata (Anthropic_convertAnthropicResponseToGemini example_anthropic_response) =
     Some \<lparr>promptTokenCount = Num 3, candidatesTokenCount = Num 4,
           totalTokenCount = Num 7\<rparr> \<and>
   usageMetadata (Anthropic_convertAnthropicResponseToGemini
       example_anthropic_partial_response) =
     Some \<lparr>promptTokenCount = Num 10, candidatesTokenCount = Num 0,
           totalTokenCount = Num 0\<rparr> \<and>
   Api_generateContent
       (example_fetch (Some \<lparr>response_time_ms = None, tokens_used = Some 12\<rparr>))
       example_gateway example_request =
     ([Fetch (js ''https://gw/api/chat/send'')],
      Inr (Api_convertApiResponseToGemini
             (example_reply (Some \<lparr>response_time_ms = None, tokens_used = Some 12\<rparr>)))) \<and>
   usageMetadata (Api_convertApiResponseToGemini
       (example_reply (Some \<lparr>response_time_ms = None, tokens_used = Some 12\<rparr>))) =
     Some \<lparr>promptTokenCount = Num 0, candidatesTokenCount = Num 12,
           totalTokenCount = Num 12\<rparr> \<and>
   double_of_int 7 = Num 7"
proof -
  let ?md = "Some \<lparr>response_time_ms = None, tokens_used = Some 12\<rparr>"
  have o: "OpenAI_generateContent example_openai_create (js ''gpt-4o'') example_request =
     ([OpenAI_chat_completions_create],
      Inr (OpenAI_convertOpenAIResponseToGemini example_openai_response))"
    by (simp add: OpenAI_generateContent_def example_openai_create_def rethrow_def)
  have a: "Anthropic_generateContent example_anthropic_create (js ''claude-opus-4-1'')
       example_request =
     ([Anthropic_messages_create],
      Inr (Anthropic_convertAnthropicResponseToGemini example_anthropic_response))"
    by (simp add: Anthropic_generateContent_def example_anthropic_create_def rethrow_def)
  have g: "Api_generateContent (example_fetch ?md) example_gateway example_request =
     ([Fetch (js ''https://gw/api/chat/send'')],
      Inr (Api_convertApiResponseToGemini (example_reply ?md)))"
    by (simp add: Api_generateContent_def Api_makeApiRequest_def example_fetch_def
        example_gateway_def rethrow_def js_def)
  note O = usage_mapping [where r = example_openai_response
      and a = example_anthropic_response and g = "example_reply ?md" and n = 7
      and create_o = example_openai_create and m = "js ''gpt-4o''"
      and request = example_request and calls = "[OpenAI_chat_completions_create]"
      and resp = "OpenAI_convertOpenAIResponseToGemini example_openai_response"
      and create_a = example_anthropic_create and fetch = "example_fetch ?md"
      and this = example_gateway]
  note A = usage_mapping [where r = example_openai_response
      and a = example_anthropic_response and g = "example_reply ?md" and n = 7
      and create_o = example_openai_create and m = "js ''claude-opus-4-1''"
      and request = example_request and calls = "[Anthropic_messages_create]"
      and resp = "Anthropic_convertAnthropicResponseToGemini example_anthropic_response"
      and create_a = example_anthropic_create and fetch = "example_fetch ?md"
      and this = example_gateway]
  note P = usage_mapping [where r = example_openai_response
      and a = example_anthropic_partial_response and g = "example_reply ?md" and n = 7
      and create_o = example_openai_create and m = "js ''gpt-4o''"
      and request = example_request and calls = "[Fetch (js ''https://gw/api/chat/send'')]"
      and resp = "Api_convertApiResponseToGemini (example_reply ?md)"
      and create_a = example_anthropic_create and fetch = "example_fetch ?md"
      and this = example_gateway]
  have "\<exists>p native. example_openai_create p = Inr native \<and>
      [OpenAI_chat_completions_create] = [OpenAI_chat_completions_create] \<and>
      OpenAI_convertOpenAIResponseToGemini example_openai_response =
        OpenAI_convertOpenAIResponseToGemini native"
    by (rule O [THEN conjunct2, THEN conjunct2, THEN conjunct2, THEN conjunct2,
          THEN conjunct2, THEN conjunct1, THEN mp, OF o])
  have "\<exists>p native. example_anthropic_create p = Inr native \<and>
      [Anthropic_messages_create] = [Anthropic_messages_create] \<and>
      Anthropic_convertAnthropicResponseToGemini example_anthropic_response =
        Anthropic_convertAnthropicResponseToGemini native"
    by (rule A [THEN conjunct2, THEN conjunct2, THEN conjunct2, THEN conjunct2,
          THEN conjunct2, THEN conjunct2, THEN conjunct1, THEN mp, OF a])
  have "\<exists>q h native. example_fetch ?md q = Inr h \<and> ok h \<and>
      response_json h = Inr native \<and>
      Api_convertApiResponseToGemini (example_reply ?md) = Api_convertApiResponseToGemini native"
    by (rule P [THEN conjunct2, THEN conjunct2, THEN conjunct2, THEN conjunct2,
          THEN conjunct2, THEN conjunct2, THEN conjunct2, THEN mp, OF g])
  have seven: "double_of_int 7 = Num 7"
    using O [THEN conjunct2, THEN conjunct2, THEN conjunct2, THEN conjunct1] by simp
  have ou: "usageMetadata (OpenAI_convertOpenAIResponseToGemini example_openai_response) =
     Some \<lparr>promptTokenCount = Num 7, candidatesTokenCount = Num 0, totalTokenCount = Num 0\<rparr>"
    using O [THEN conjunct1] by (simp add: example_openai_response_def seven)
  have "\<exists>u. usageMetadata
        (Anthropic_convertAnthropicResponseToGemini example_anthropic_response) = Some u \<and>
      promptTokenCount u = Num 3 \<and> candidatesTokenCount u = Num 4 \<and>
      totalTokenCount u = Num 7"
    using A [THEN conjunct2, THEN conjunct1]
    by (auto simp: example_anthropic_response_def double_of_int_safe)
  then obtain u where u: "usageMetadata
        (Anthropic_convertAnthropicResponseToGemini example_anthropic_response) = Some u"
      "promptTokenCount u = Num 3" "candidatesTokenCount u = Num 4"
      "totalTokenCount u = Num 7"
    by blast
  then have au: "usageMetadata
        (Anthropic_convertAnthropicResponseToGemini example_anthropic_response) =
     Some \<lparr>promptTokenCount = Num 3, candidatesTokenCount = Num 4, totalTokenCount = Num 7\<rparr>"
    by (cases u) simp
  have "\<exists>u. usageMetadata
        (Anthropic_convertAnthropicResponseToGemini example_anthropic_partial_response) = Some u \<and>
      promptTokenCount u = Num 10 \<and> candidatesTokenCount u = Num 0 \<and>
      totalTokenCount u = Num 0"
    using P [THEN conjunct2, THEN conjunct1]
    by (auto simp: example_anthropic_partial_response_def double_of_int_safe)
  then obtain v where v: "usageMetadata
        (Anthropic_convertAnthropicResponseToGemini example_anthropic_partial_response) = Some v"
      "promptTokenCount v = Num 10" "candidatesTokenCount v = Num 0"
      "totalTokenCount v = Num 0"
    by blast
  then have pu: "usageMetadata
        (Anthropic_convertAnthropicResponseToGemini example_anthropic_partial_response) =
     Some \<lparr>promptTokenCount = Num 10, candidatesTokenCount = Num 0, totalTokenCount = Num 0\<rparr>"
    by (cases v) simp
  have gu: "usageMetadata (Api_convertApiResponseToGemini (example_reply ?md)) =
     Some \<lparr>promptTokenCount = Num 0, candidatesTokenCount = Num 12, totalTokenCount = Num 12\<rparr>"
    using P [THEN conjunct2, THEN conjunct2, THEN conjunct1]
    by (simp add: example_reply_def double_of_int_safe)
  from o a g ou au pu gu seven show ?thesis by (intro conjI)
qed

theorem usage_absent_counterexample:
  "Api_generateContent (example_fetch None) example_gateway example_request =
     ([Fetch (js ''https://gw/api/chat/send'')],
      Inr \<lparr>candidates =
             [\<lparr>content = \<lparr>parts = [Part (Some (js ''hi''))], role = js ''model''\<rparr>,
               finishReason = STOP\<rparr>],
           usageMetadata = None\<rparr>)"
  by (simp add: Api_generateContent_def Api_makeApiRequest_def example_fetch_def
      example_gateway_def example_reply_def rethrow_def js_def read_number_def
      Api_convertApiResponseToGemini_def GenerateContentResponseClass_def)

section \<open>Streaming: the line-framed normalizer\<close>

lemma split_newline_nonempty [simp]: "split_newline s \<noteq> []"
  by (induction s) (auto split: list.splits)

lemma split_newline_line: "is_line l \<Longrightarrow> split_newline l = [l]"
  by (induction l) (auto simp: is_line_def)

lemma split_newline_line_feed:
  "is_line l \<Longrightarrow> split_newline (l @ 0x0A # rest) = l # split_newline rest"
  by (induction l) (auto simp: is_line_def split: list.splits)

lemma split_newline_framed:
  "\<forall>l \<in> set ls. is_line l \<Longrightarrow> is_line fragment \<Longrightarrow>
   split_newline (framed ls @ fragment) = ls @ [fragment]"
  by (induction ls) (simp_all add: framed_def split_newline_line_feed split_newline_line)

lemma split_newline_append:
  "split_newline (a @ b) =
     butlast (split_newline a) @ split_newline (last (split_newline a) @ b)"
proof (induction a)
  case Nil
  then show ?case by simp
next
  case (Cons c cs)
  obtain l ls where s: "split_newline cs = l # ls"
    by (cases "split_newline cs") simp_all
  show ?case
  proof (cases "c = 0x0A")
    case True
    with Cons show ?thesis by simp
  next
    case False
    show ?thesis
    proof (cases ls)
      case Nil
      with False s Cons show ?thesis by simp
    next
      case (Cons l' ls')
      with False s Cons.IH show ?thesis by simp
    qed
  qed
qed

lemma last_split_newline_line: "is_line (last (split_newline s))"
  by (induction s) (auto simp: is_line_def split: list.splits)

lemma pop_split_newline:
  "pop (split_newline s) = (Some (last (split_newline s)), butlast (split_newline s))"
proof -
  obtain ys y where "split_newline s = ys @ [y]"
    using split_newline_nonempty [of s] by (metis rev_exhaust)
  then show ?thesis by (simp add: pop_def)
qed

lemma or_string_Some_Nil: "or_string (Some l) [] = l"
  by (simp add: or_string_def)

lemma read_loop_lines:
  "is_line buffer \<Longrightarrow>
   read_loop parse buffer blocks =
     concat (map (line_responses parse) (butlast (split_newline (buffer @ concat blocks))))"
proof (induction blocks arbitrary: buffer)
  case Nil
  then show ?case by (simp add: split_newline_line)
next
  case (Cons v rest)
  let ?s = "split_newline (buffer @ v)"
  have "read_loop parse buffer (v # rest) =
          concat (map (line_responses parse) (butlast ?s)) @ read_loop parse (last ?s) rest"
    by (simp add: pop_split_newline or_string_Some_Nil Let_def)
  also have "read_loop parse (last ?s) rest =
          concat (map (line_responses parse) (butlast (split_newline (last ?s @ concat rest))))"
    by (rule Cons.IH) (rule last_split_newline_line)
  also have "concat (map (line_responses parse) (butlast ?s)) @ \<dots> =
          concat (map (line_responses parse)
            (butlast (butlast ?s @ split_newline (last ?s @ concat rest))))"
    by (simp add: butlast_append)
  also have "butlast ?s @ split_newline (last ?s @ concat rest) =
          split_newline (buffer @ concat (v # rest))"
    using split_newline_append [of "buffer @ v" "concat rest"] by simp
  finally show ?case .
qed

lemma read_loop_framed:
  assumes "\<forall>l \<in> set ls. is_line l" and "is_line fragment"
    and "concat blocks = framed ls @ fragment"
  shows "read_loop parse [] blocks = concat (map (line_responses parse) ls)"
proof -
  have "read_loop parse [] blocks =
          concat (map (line_responses parse) (butlast (split_newline (framed ls @ fragment))))"
    using read_loop_lines [of "[]" parse blocks] assms(3) by (simp add: is_line_def)
  then show ?thesis by (simp add: split_newline_framed assms(1,2))
qed

lemma isWhiteSpace_d: "\<not> isWhiteSpace 0x64"
  by (simp add: isWhiteSpace_def)

lemma trim_frame: "prefix (js ''data: '') l \<Longrightarrow> trim l \<noteq> []"
proof -
  assume "prefix (js ''data: '') l"
  then obtain r where l: "l = 0x64 # r"
    by (auto simp: prefix_def js_def cu_def)
  have "dropWhile isWhiteSpace l = l"
    by (simp add: l isWhiteSpace_d)
  moreover have "dropWhile isWhiteSpace (rev l) \<noteq> []"
    unfolding dropWhile_eq_Nil_conv using isWhiteSpace_d by (auto simp: l)
  ultimately show ?thesis by (simp add: trim_def)
qed

lemma line_responses_well_formed:
  "well_formed_frame parse l \<Longrightarrow> line_responses parse l = [canonical_chunk parse l]"
  by (auto simp: well_formed_frame_def line_responses_def trim_frame canonical_chunk_def
      frame_text_def frame_terminal_def falsy_def GenerateContentResponseClass_def
      split: option.splits)

lemma line_responses_malformed: "malformed_line parse l \<Longrightarrow> line_responses parse l = []"
  by (simp add: malformed_line_def line_responses_def)

lemma line_responses_skipped: "skipped_line l \<Longrightarrow> line_responses parse l = []"
  by (auto simp: skipped_line_def line_responses_def)

lemma concat_line_responses:
  "\<forall>l \<in> set ls. well_formed_frame parse l \<or> skipped_line l \<Longrightarrow>
   concat (map (line_responses parse) ls) =
     map (canonical_chunk parse) (filter (well_formed_frame parse) ls)"
  by (induction ls)
    (auto simp: line_responses_well_formed line_responses_skipped)


text \<open>
  C2 (as amended). The reply's body delivers, in blocks cut anywhere, the lines \<open>pre\<close>,
  one malformed line and the lines \<open>post\<close>, each followed by a line feed, and after the
  last line feed possibly a fragment without one; every line of \<open>pre\<close> and \<open>post\<close> is a
  well-formed frame or a skipped line (blank or without the prefix). Then the stream
  yields exactly the canonical chunks of the well-formed frames, in their order: as many
  as \<open>pre\<close> and \<open>post\<close> hold together. The malformed line yields nothing and does not end
  the stream, each chunk's finish reason is STOP when its frame is marked finished and
  FINISH_REASON_UNSPECIFIED otherwise, and the fragment after the last line feed yields
  nothing, whatever it holds.
\<close>

theorem stream_skips_malformed:
  assumes "\<forall>l \<in> set pre. well_formed_frame parse l \<or> skipped_line l"
    and "malformed_line parse bad"
    and "\<forall>l \<in> set post. well_formed_frame parse l \<or> skipped_line l"
    and "fetch \<lparr>url = apiEndpoint this @ js ''/api/chat/stream'',
                 authorization = js ''Bearer '' @ authToken this,
                 body_r = apiRequest\<rparr> = Inr response"
    and "ok response"
    and "body response = Some blocks"
    and "is_line fragment"
    and "concat blocks = framed (pre @ [bad] @ post) @ fragment"
  shows "\<exists>chunks.
      Api_convertApiStreamToGemini parse fetch this apiRequest =
        ([Fetch (apiEndpoint this @ js ''/api/chat/stream'')], Inr chunks) \<and>
      chunks = map (canonical_chunk parse) (filter (well_formed_frame parse) (pre @ post)) \<and>
      length chunks = length (filter (well_formed_frame parse) pre) +
                      length (filter (well_formed_frame parse) post) \<and>
      map (\<lambda>r. map finishReason (candidates r)) chunks =
        map (\<lambda>l. [if frame_terminal parse l then STOP else FINISH_REASON_UNSPECIFIED])
          (filter (well_formed_frame parse) (pre @ post))"
proof -
  let ?wf = "well_formed_frame parse"
  have lines: "\<forall>l \<in> set (pre @ [bad] @ post). is_line l"
    using assms(1-3) by (auto simp: well_formed_frame_def skipped_line_def malformed_line_def)
  have "read_loop parse [] blocks =
          concat (map (line_responses parse) (pre @ [bad] @ post))"
    using lines assms(7,8) by (rule read_loop_framed)
  also have "\<dots> = concat (map (line_responses parse) pre) @
                   concat (map (line_responses parse) post)"
    by (simp add: line_responses_malformed [OF assms(2)])
  also have "\<dots> = map (canonical_chunk parse) (filter ?wf (pre @ post))"
    by (simp add: concat_line_responses [OF assms(1)] concat_line_responses [OF assms(3)])
  finally have loop: "read_loop parse [] blocks =
      map (canonical_chunk parse) (filter ?wf (pre @ post))" .
  have run: "Api_convertApiStreamToGemini parse fetch this apiRequest =
      ([Fetch (apiEndpoint this @ js ''/api/chat/stream'')],
       Inr (map (canonical_chunk parse) (filter ?wf (pre @ post))))"
    by (simp add: Api_convertApiStreamToGemini_def assms(4-6) loop)
  show ?thesis
    unfolding run by (simp add: canonical_chunk_def comp_def)
qed

theorem stream_skips_malformed_witness:
  "Api_convertApiStreamToGemini example_parse example_stream_fetch example_gateway
       example_stream_request =
     ([Fetch (js ''https://gw/api/chat/stream'')],
      Inr [\<lparr>candidates =
              [\<lparr>content = \<lparr>parts = [Part (Some (js ''Hel''))], role = js ''model''\<rparr>,
                finishReason = FINISH_REASON_UNSPECIFIED\<rparr>],
            usageMetadata = None\<rparr>,
           \<lparr>candidates =
              [\<lparr>content = \<lparr>parts = [Part (Some (js ''lo''))], role = js ''model''\<rparr>,
                finishReason = STOP\<rparr>],
            usageMetadata = None\<rparr>])"
proof -
  have pre: "\<forall>l \<in> set example_pre. well_formed_frame example_parse l \<or> skipped_line l"
    by (simp add: example_pre_def well_formed_frame_def skipped_line_def is_line_def
        example_parse_def json_frame_def trim_def isWhiteSpace_def js_def cu_def)
  have bad: "malformed_line example_parse example_bad"
    by (simp add: example_bad_def malformed_line_def is_line_def example_parse_def
        json_frame_def js_def cu_def)
  have post: "\<forall>l \<in> set example_post. well_formed_frame example_parse l \<or> skipped_line l"
    by (simp add: example_post_def well_formed_frame_def skipped_line_def is_line_def
        example_parse_def json_frame_def trim_def isWhiteSpace_def js_def cu_def)
  have fetch: "example_stream_fetch
      \<lparr>url = apiEndpoint example_gateway @ js ''/api/chat/stream'',
       authorization = js ''Bearer '' @ authToken example_gateway,
       body_r = example_stream_request\<rparr> =
      Inr \<lparr>ok = True, status = 200, statusText = js ''OK'', response_text = Inr (js []),
          response_json = Inl (Error (js ''not JSON'')), body = Some example_blocks\<rparr>"
    by (simp add: example_stream_fetch_def)
  have fragment: "is_line example_fragment"
    by (simp add: example_fragment_def is_line_def json_frame_def js_def cu_def)
  have "take 20 (framed (example_pre @ [example_bad] @ example_post)) @
        drop 20 (framed (example_pre @ [example_bad] @ example_post)) @ example_fragment =
        framed (example_pre @ [example_bad] @ example_post) @ example_fragment"
    by (simp only: append_assoc [symmetric] append_take_drop_id)
  then have blocks: "concat example_blocks =
      framed (example_pre @ [example_bad] @ example_post) @ example_fragment"
    by (simp add: example_blocks_def)
  have wf: "filter (well_formed_frame example_parse) (example_pre @ example_post) =
      [js ''data: '' @ json_frame (js ''Hel'') False, js ''data: '' @ json_frame (js ''lo'') True]"
    by (simp add: example_pre_def example_post_def well_formed_frame_def is_line_def
        example_parse_def json_frame_def js_def cu_def)
  have chunks: "map (canonical_chunk example_parse)
      [js ''data: '' @ json_frame (js ''Hel'') False, js ''data: '' @ json_frame (js ''lo'') True] =
      [\<lparr>candidates =
              [\<lparr>content = \<lparr>parts = [Part (Some (js ''Hel''))], role = js ''model''\<rparr>,
                finishReason = FINISH_REASON_UNSPECIFIED\<rparr>],
            usageMetadata = None\<rparr>,
           \<lparr>candidates =
              [\<lparr>content = \<lparr>parts = [Part (Some (js ''lo''))], role = js ''model''\<rparr>,
                finishReason = STOP\<rparr>],
            usageMetadata = None\<rparr>]"
    by (simp add: canonical_chunk_def frame_text_def frame_terminal_def example_parse_def
        json_frame_def js_def cu_def)
  from stream_skips_malformed [where parse = example_parse and fetch = example_stream_fetch
      and this = example_gateway and apiRequest = example_stream_request
      and blocks = example_blocks, OF pre bad post fetch _ _ fragment blocks]
  have "\<exists>chunks.
      Api_convertApiStreamToGemini example_parse example_stream_fetch example_gateway
        example_stream_request =
        ([Fetch (apiEndpoint example_gateway @ js ''/api/chat/stream'')], Inr chunks) \<and>
      chunks = map (canonical_chunk example_parse)
        (filter (well_formed_frame example_parse) (example_pre @ example_post))"
    by simp
  then show ?thesis
    unfolding wf chunks by (simp add: example_gateway_def js_def)
qed

theorem stream_unterminated_frame_counterexample:
  "well_formed_frame example_parse (js ''data: '' @ json_frame (js ''Hel'') False) \<and>
   malformed_line example_parse example_bad \<and>
   well_formed_frame example_parse (js ''data: '' @ json_frame (js ''lo'') True) \<and>
   example_unterminated_blocks =
     [(js ''data: '' @ json_frame (js ''Hel'') False) @ [0x0A] @ example_bad @ [0x0A] @
      (js ''data: '' @ json_frame (js ''lo'') True)] \<and>
   Api_convertApiStreamToGemini example_parse example_unterminated_fetch example_gateway
       example_stream_request =
     ([Fetch (js ''https://gw/api/chat/stream'')],
      Inr [\<lparr>candidates =
              [\<lparr>content = \<lparr>parts = [Part (Some (js ''Hel''))], role = js ''model''\<rparr>,
                finishReason = FINISH_REASON_UNSPECIFIED\<rparr>],
            usageMetadata = None\<rparr>])"
proof -
  let ?f1 = "js ''data: '' @ json_frame (js ''Hel'') False"
  let ?f2 = "js ''data: '' @ json_frame (js ''lo'') True"
  have f1: "well_formed_frame example_parse ?f1"
    and f2: "well_formed_frame example_parse ?f2"
    by (simp_all add: well_formed_frame_def is_line_def example_parse_def json_frame_def
        js_def cu_def)
  have bad: "malformed_line example_parse example_bad"
    by (simp add: example_bad_def malformed_line_def is_line_def example_parse_def
        json_frame_def js_def cu_def)
  have blocks: "example_unterminated_blocks = [?f1 @ [0x0A] @ example_bad @ [0x0A] @ ?f2]"
    by (simp add: example_unterminated_blocks_def framed_def)
  have lines: "\<forall>l \<in> set [?f1, example_bad]. is_line l"
    using f1 bad by (simp add: well_formed_frame_def malformed_line_def)
  have last_line: "is_line ?f2"
    using f2 by (simp add: well_formed_frame_def)
  have "concat example_unterminated_blocks = framed [?f1, example_bad] @ ?f2"
    by (simp add: example_unterminated_blocks_def)
  with lines last_line
  have "read_loop example_parse [] example_unterminated_blocks =
      concat (map (line_responses example_parse) [?f1, example_bad])"
    by (rule read_loop_framed)
  also have "\<dots> = [canonical_chunk example_parse ?f1]"
    by (simp add: line_responses_well_formed [OF f1] line_responses_malformed [OF bad])
  also have "\<dots> =
      [\<lparr>candidates =
          [\<lparr>content = \<lparr>parts = [Part (Some (js ''Hel''))], role = js ''model''\<rparr>,
            finishReason = FINISH_REASON_UNSPECIFIED\<rparr>],
        usageMetadata = None\<rparr>]"
    by (simp add: canonical_chunk_def frame_text_def frame_terminal_def example_parse_def
        json_frame_def js_def cu_def)
  finally have "Api_convertApiStreamToGemini example_parse example_unterminated_fetch
      example_gateway example_stream_request =
     ([Fetch (js ''https://gw/api/chat/stream'')],
      Inr [\<lparr>candidates =
              [\<lparr>content = \<lparr>parts = [Part (Some (js ''Hel''))], role = js ''model''\<rparr>,
                finishReason = FINISH_REASON_UNSPECIFIED\<rparr>],
            usageMetadata = None\<rparr>])"
    by (simp add: Api_convertApiStreamToGemini_def example_unterminated_fetch_def
        example_gateway_def js_def)
  with f1 bad f2 blocks show ?thesis by (intro conjI)
qed

section \<open>The factory\<close>

lemmas AuthType_defs =
  LOGIN_WITH_GOOGLE_def USE_GEMINI_def USE_VERTEX_AI_def CLOUD_SHELL_def USE_OPENAI_def
  USE_ANTHROPIC_def USE_API_def

lemma create_unrecognized:
  "authType cfg \<notin> Some ` set AuthType_values \<Longrightarrow>
   createContentGenerator env cfg =
     Inl (Error (js ''Error creating contentGenerator: Unsupported authType: ''
           @ (case authType cfg of None \<Rightarrow> js ''undefined'' | Some s \<Rightarrow> s)))"
  by (auto simp: createContentGenerator_def AuthType_values_def template_string_def)

lemma create_openai:
  "authType cfg = Some USE_OPENAI \<Longrightarrow>
   createContentGenerator env cfg =
        (if falsy (openaiApiKey cfg)
         then Inl (Error (js ''OpenAI API key is required for OpenAI authentication''))
         else Inr (LoggingContentGenerator
                (OpenAIContentGenerator (or_string (openaiApiKey cfg) [])
                   (or_string (openaiModel cfg) (js ''gpt-4o'')))))"
  by (simp add: createContentGenerator_def AuthType_defs)

lemma create_anthropic:
  "authType cfg = Some USE_ANTHROPIC \<Longrightarrow>
   createContentGenerator env cfg =
        (if falsy (anthropicApiKey cfg)
         then Inl (Error (js ''Anthropic API key is required for Anthropic authentication''))
         else Inr (LoggingContentGenerator
                (AnthropicContentGenerator (or_string (anthropicApiKey cfg) [])
                   (or_string (anthropicModel cfg) (js ''claude-3-5-sonnet-20241022'')))))"
  by (simp add: createContentGenerator_def AuthType_defs)

lemma create_api:
  "authType cfg = Some USE_API \<Longrightarrow>
   createContentGenerator env cfg =
        (if falsy (config_apiEndpoint cfg) \<or> falsy (apiAuthToken cfg)
         then Inl (Error
                (js ''API endpoint and auth token are required for API-based authentication''))
         else Inr (LoggingContentGenerator
                (ApiContentGenerator (or_string (config_apiEndpoint cfg) [])
                   (or_string (apiAuthToken cfg) [])
                   (or_string (apiModel cfg) (js ''gpt-4o'')))))"
  by (simp add: createContentGenerator_def AuthType_defs)

lemma create_gemini:
  "authType cfg = Some USE_GEMINI \<or> authType cfg = Some USE_VERTEX_AI \<Longrightarrow>
   createContentGenerator env cfg =
         (case GoogleGenAI env
                 \<lparr>options_apiKey = (if apiKey cfg = Some [] then None else apiKey cfg),
                  options_vertexai = vertexai cfg,
                  options_headers =
                    (if getUsageStatisticsEnabled env
                     then baseHeaders env @
                          [(js ''x-gemini-api-privileged-user-id'', getInstallationId env)]
                     else baseHeaders env)\<rparr> of
            Inl e \<Rightarrow> Inl e
          | Inr models \<Rightarrow>
              Inr (LoggingContentGenerator (GoogleGenAIWrapper models
                     (if vertexai cfg = Some True then js ''vertex-ai''
                      else js ''gemini-2.5-pro''))))"
  unfolding createContentGenerator_def Let_def
  by (erule disjE) (simp_all add: AuthType_defs)

lemma create_code_assist:
  "authType cfg = Some LOGIN_WITH_GOOGLE \<or> authType cfg = Some CLOUD_SHELL \<Longrightarrow>
   createContentGenerator env cfg =
        (case createCodeAssistContentGenerator env (baseHeaders env) (authType cfg) of
           Inl e \<Rightarrow> Inl e
         | Inr c \<Rightarrow> Inr (LoggingContentGenerator (CodeAssistContentGenerator c)))"
  unfolding createContentGenerator_def
  by (erule disjE) (simp_all add: AuthType_defs)

lemma create_kind:
  assumes ok: "createContentGenerator env cfg = Inr g"
  shows "\<exists>a t. authType cfg = Some t \<and> g = LoggingContentGenerator a \<and>
             adapter_for t = Some (adapter_type_of a)"
proof -
  consider
      (code_assist) "authType cfg = Some LOGIN_WITH_GOOGLE \<or> authType cfg = Some CLOUD_SHELL"
    | (gemini) "authType cfg = Some USE_GEMINI \<or> authType cfg = Some USE_VERTEX_AI"
    | (openai) "authType cfg = Some USE_OPENAI"
    | (anthropic) "authType cfg = Some USE_ANTHROPIC"
    | (api) "authType cfg = Some USE_API"
    | (other) "authType cfg \<notin> Some ` set AuthType_values"
    by (auto simp: AuthType_values_def)
  then show ?thesis
  proof cases
    case code_assist
    then obtain t where t: "authType cfg = Some t" "adapter_for t = Some CodeAssist_adapter"
      by (auto simp: adapter_for_def)
    from ok code_assist obtain c where "g = LoggingContentGenerator (CodeAssistContentGenerator c)"
      by (auto simp: create_code_assist split: sum.splits)
    with t show ?thesis by simp
  next
    case gemini
    then obtain t where t: "authType cfg = Some t" "adapter_for t = Some GoogleGenAI_adapter"
      by (auto simp: adapter_for_def AuthType_defs)
    from ok gemini obtain m n where "g = LoggingContentGenerator (GoogleGenAIWrapper m n)"
      by (auto simp: create_gemini split: sum.splits)
    with t show ?thesis by simp
  next
    case openai
    then obtain t where t: "authType cfg = Some t" "adapter_for t = Some OpenAI_adapter"
      by (auto simp: adapter_for_def AuthType_defs)
    from ok openai obtain k m where "g = LoggingContentGenerator (OpenAIContentGenerator k m)"
      by (auto simp: create_openai split: if_splits)
    with t show ?thesis by simp
  next
    case anthropic
    then obtain t where t: "authType cfg = Some t" "adapter_for t = Some Anthropic_adapter"
      by (auto simp: adapter_for_def AuthType_defs)
    from ok anthropic obtain k m where
      "g = LoggingContentGenerator (AnthropicContentGenerator k m)"
      by (auto simp: create_anthropic split: if_splits)
    with t show ?thesis by simp
  next
    case api
    then obtain t where t: "authType cfg = Some t" "adapter_for t = Some Api_adapter"
      by (auto simp: adapter_for_def AuthType_defs)
    from ok api obtain e k m where "g = LoggingContentGenerator (ApiContentGenerator e k m)"
      by (auto simp: create_api split: if_splits)
    with t show ?thesis by simp
  next
    case other
    with ok show ?thesis by (simp add: create_unrecognized)
  qed
qed

text \<open>
  C3 (as amended). \<open>createContentGenerator\<close> returns for every configuration either an
  error or one generator, and a generator it returns is the logging decorator around the
  adapter type that the auth type alone selects. An auth type that is none of the seven
  modes, whether another string or absent, is an error that names it. In the OpenAI,
  Anthropic and gateway modes a missing (or empty) credential is an error and otherwise
  the mode's own adapter is built. In the Gemini and Vertex modes the factory checks no
  credential: it hands the key (an empty key as \<^verbatim>\<open>undefined\<close>) to the
  \<^verbatim>\<open>GoogleGenAI\<close> constructor and wraps what that builds. In the Google login and Cloud
  Shell modes it wraps what \<^verbatim>\<open>createCodeAssistContentGenerator\<close> builds. An error of either
  outside constructor is passed on; no branch builds another mode's adapter.
\<close>

theorem factory_selection:
  "(createContentGenerator env cfg = Inr g \<longrightarrow>
      (\<exists>a t. authType cfg = Some t \<and> g = LoggingContentGenerator a \<and>
             adapter_for t = Some (adapter_type_of a))) \<and>
   (authType cfg \<notin> Some ` set AuthType_values \<longrightarrow>
      createContentGenerator env cfg =
        Inl (Error (js ''Error creating contentGenerator: Unsupported authType: ''
              @ (case authType cfg of None \<Rightarrow> js ''undefined'' | Some s \<Rightarrow> s)))) \<and>
   (authType cfg = Some USE_OPENAI \<longrightarrow>
      createContentGenerator env cfg =
        (if falsy (openaiApiKey cfg)
         then Inl (Error (js ''OpenAI API key is required for OpenAI authentication''))
         else Inr (LoggingContentGenerator
                (OpenAIContentGenerator (or_string (openaiApiKey cfg) [])
                   (or_string (openaiModel cfg) (js ''gpt-4o'')))))) \<and>
   (authType cfg = Some USE_ANTHROPIC \<longrightarrow>
      createContentGenerator env cfg =
        (if falsy (anthropicApiKey cfg)
         then Inl (Error (js ''Anthropic API key is required for Anthropic authentication''))
         else Inr (LoggingContentGenerator
                (AnthropicContentGenerator (or_string (anthropicApiKey cfg) [])
                   (or_string (anthropicModel cfg) (js ''claude-3-5-sonnet-20241022'')))))) \<and>
   (authType cfg = Some USE_API \<longrightarrow>
      createContentGenerator env cfg =
        (if falsy (config_apiEndpoint cfg) \<or> falsy (apiAuthToken cfg)
         then Inl (Error
                (js ''API endpoint and auth token are required for API-based authentication''))
         else Inr (LoggingContentGenerator
                (ApiContentGenerator (or_string (config_apiEndpoint cfg) [])
                   (or_string (apiAuthToken cfg) [])
                   (or_string (apiModel cfg) (js ''gpt-4o'')))))) \<and>
   (authType cfg = Some USE_GEMINI \<or> authType cfg = Some USE_VERTEX_AI \<longrightarrow>
      (createContentGenerator env cfg =
         (case GoogleGenAI env
                 \<lparr>options_apiKey = (if apiKey cfg = Some [] then None else apiKey cfg),
                  options_vertexai = vertexai cfg,
                  options_headers =
                    (if getUsageStatisticsEnabled env
                     then baseHeaders env @
                          [(js ''x-gemini-api-privileged-user-id'', getInstallationId env)]
                     else baseHeaders env)\<rparr> of
            Inl e \<Rightarrow> Inl e
          | Inr models \<Rightarrow>
              Inr (LoggingContentGenerator (GoogleGenAIWrapper models
                     (if vertexai cfg = Some True then js ''vertex-ai''
                      else js ''gemini-2.5-pro'')))))) \<and>
   (authType cfg = Some LOGIN_WITH_GOOGLE \<or> authType cfg = Some CLOUD_SHELL \<longrightarrow>
      createContentGenerator env cfg =
        (case createCodeAssistContentGenerator env (baseHeaders env) (authType cfg) of
           Inl e \<Rightarrow> Inl e
         | Inr c \<Rightarrow> Inr (LoggingContentGenerator (CodeAssistContentGenerator c))))"
proof (intro conjI impI)
  assume "createContentGenerator env cfg = Inr g"
  then show "\<exists>a t. authType cfg = Some t \<and> g = LoggingContentGenerator a \<and>
             adapter_for t = Some (adapter_type_of a)"
    by (rule create_kind)
qed (erule create_unrecognized create_openai create_anthropic create_api create_gemini
       create_code_assist)+

theorem factory_selection_witness:
  "createContentGenerator example_env (example_config None) =
     Inl (Error (js ''Error creating contentGenerator: Unsupported authType: undefined'')) \<and>
   createContentGenerator example_env (example_config (Some (js ''azure-ad''))) =
     Inl (Error (js ''Error creating contentGenerator: Unsupported authType: azure-ad'')) \<and>
   createContentGenerator example_env (example_config (Some USE_OPENAI)) =
     Inl (Error (js ''OpenAI API key is required for OpenAI authentication'')) \<and>
   createContentGenerator example_env
       ((example_config (Some USE_ANTHROPIC))\<lparr>anthropicApiKey := Some (js ''sk'')\<rparr>) =
     Inr (LoggingContentGenerator
       (AnthropicContentGenerator (js ''sk'') (js ''claude-3-5-sonnet-20241022''))) \<and>
   adapter_for USE_ANTHROPIC =
     Some (adapter_type_of (AnthropicContentGenerator (js ''sk'')
       (js ''claude-3-5-sonnet-20241022'')
       :: (AuthType option, GoogleGenAIOptions) ContentGenerator)) \<and>
   createContentGenerator example_env
       ((example_config (Some USE_API))\<lparr>config_apiEndpoint := Some (js ''https://gw'')\<rparr>) =
     Inl (Error (js ''API endpoint and auth token are required for API-based authentication'')) \<and>
   createContentGenerator example_env
       ((example_config (Some USE_VERTEX_AI))\<lparr>vertexai := Some True\<rparr>) =
     Inr (LoggingContentGenerator
       (GoogleGenAIWrapper
          \<lparr>options_apiKey = None, options_vertexai = Some True,
           options_headers = [(js ''User-Agent'', js ''GeminiCLI/v20.0.0 (linux; x64)'')]\<rparr>
          (js ''vertex-ai''))) \<and>
   createContentGenerator example_env (example_config (Some CLOUD_SHELL)) =
     Inr (LoggingContentGenerator (CodeAssistContentGenerator (Some CLOUD_SHELL)))"
proof -
  let ?anthropic = "(example_config (Some USE_ANTHROPIC))\<lparr>anthropicApiKey := Some (js ''sk'')\<rparr>"
  let ?api = "(example_config (Some USE_API))\<lparr>config_apiEndpoint := Some (js ''https://gw'')\<rparr>"
  let ?vertex = "(example_config (Some USE_VERTEX_AI))\<lparr>vertexai := Some True\<rparr>"
  let ?g = "LoggingContentGenerator
       (AnthropicContentGenerator (js ''sk'') (js ''claude-3-5-sonnet-20241022''))
       :: (AuthType option, GoogleGenAIOptions) ContentGenerator"
  note T = factory_selection [where env = example_env and g = ?g]
  have none: "authType (example_config None) \<notin> Some ` set AuthType_values"
    and other: "authType (example_config (Some (js ''azure-ad''))) \<notin> Some ` set AuthType_values"
    by (auto simp: example_config_def AuthType_values_def AuthType_defs)
  have openai: "authType (example_config (Some USE_OPENAI)) = Some USE_OPENAI"
    and anthropic: "authType ?anthropic = Some USE_ANTHROPIC"
    and api: "authType ?api = Some USE_API"
    and vertex: "authType ?vertex = Some USE_GEMINI \<or> authType ?vertex = Some USE_VERTEX_AI"
    and shell: "authType (example_config (Some CLOUD_SHELL)) = Some LOGIN_WITH_GOOGLE \<or>
                authType (example_config (Some CLOUD_SHELL)) = Some CLOUD_SHELL"
    by (simp_all add: example_config_def)
  have w1: "createContentGenerator example_env (example_config None) =
     Inl (Error (js ''Error creating contentGenerator: Unsupported authType: undefined''))"
    using T [of "example_config None", THEN conjunct2, THEN conjunct1, THEN mp, OF none]
    by (simp add: example_config_def js_def)
  have w0: "createContentGenerator example_env (example_config (Some (js ''azure-ad''))) =
     Inl (Error (js ''Error creating contentGenerator: Unsupported authType: azure-ad''))"
    using T [of "example_config (Some (js ''azure-ad''))", THEN conjunct2, THEN conjunct1,
        THEN mp, OF other]
    by (simp add: example_config_def js_def)
  have w2: "createContentGenerator example_env (example_config (Some USE_OPENAI)) =
     Inl (Error (js ''OpenAI API key is required for OpenAI authentication''))"
    using T [of "example_config (Some USE_OPENAI)", THEN conjunct2, THEN conjunct2,
        THEN conjunct1, THEN mp, OF openai]
    by (simp add: example_config_def falsy_def)
  have w3: "createContentGenerator example_env ?anthropic = Inr ?g"
    using T [of ?anthropic, THEN conjunct2, THEN conjunct2, THEN conjunct2,
        THEN conjunct1, THEN mp, OF anthropic]
    by (simp add: example_config_def falsy_def or_string_def)
  from T [of ?anthropic, THEN conjunct1, THEN mp, OF w3]
  have w4: "adapter_for USE_ANTHROPIC =
     Some (adapter_type_of (AnthropicContentGenerator (js ''sk'')
       (js ''claude-3-5-sonnet-20241022'')
       :: (AuthType option, GoogleGenAIOptions) ContentGenerator))"
    by (auto simp: example_config_def)
  have w5: "createContentGenerator example_env ?api =
     Inl (Error (js ''API endpoint and auth token are required for API-based authentication''))"
    using T [of ?api, THEN conjunct2, THEN conjunct2, THEN conjunct2, THEN conjunct2,
        THEN conjunct1, THEN mp, OF api]
    by (simp add: example_config_def falsy_def)
  have w6: "createContentGenerator example_env ?vertex =
     Inr (LoggingContentGenerator
       (GoogleGenAIWrapper
          \<lparr>options_apiKey = None, options_vertexai = Some True,
           options_headers = [(js ''User-Agent'', js ''GeminiCLI/v20.0.0 (linux; x64)'')]\<rparr>
          (js ''vertex-ai'')))"
    using T [of ?vertex, THEN conjunct2, THEN conjunct2, THEN conjunct2, THEN conjunct2,
        THEN conjunct2, THEN conjunct1, THEN mp, OF vertex]
    by (simp add: example_config_def example_env_def baseHeaders_def or_string_def js_def)
  have w7: "createContentGenerator example_env (example_config (Some CLOUD_SHELL)) =
     Inr (LoggingContentGenerator (CodeAssistContentGenerator (Some CLOUD_SHELL)))"
    using T [of "example_config (Some CLOUD_SHELL)", THEN conjunct2, THEN conjunct2,
        THEN conjunct2, THEN conjunct2, THEN conjunct2, THEN conjunct2, THEN mp, OF shell]
    by (simp add: example_config_def example_env_def)
  from w1 w0 w2 w3 w4 w5 w6 w7 show ?thesis by (intro conjI)
qed

theorem factory_gemini_without_key_counterexample:
  "createContentGenerator example_env (example_config (Some USE_GEMINI)) =
     Inr (LoggingContentGenerator
       (GoogleGenAIWrapper
          \<lparr>options_apiKey = None, options_vertexai = Some False,
           options_headers = [(js ''User-Agent'', js ''GeminiCLI/v20.0.0 (linux; x64)'')]\<rparr>
          (js ''gemini-2.5-pro'')))"
  by (simp add: createContentGenerator_def example_env_def example_config_def baseHeaders_def
      or_string_def AuthType_defs js_def)

end
